theory Spec2Isabelle
  imports Complex_Main
begin

section \<open>JavaScript values\<close>

text \<open>
  The server (\<^verbatim>\<open>src/server.js\<close>) handles JSON payloads of third-party providers
  without decoding them into typed records, so the model keeps them as JavaScript values.
  A \<^typ>\<open>string\<close> stands for a JavaScript string, one \<^typ>\<open>char\<close> per UTF-16 code unit
  (the model covers the code units below 256, so \<open>length\<close>, \<open>take\<close> and
  the comparison of strings count what JavaScript counts on them).
  A number is a double: not-a-number, an infinity, or a finite value; the program never
  computes with the numbers of a payload, it only tests them (truthiness, finiteness).
  The pairs of an \<open>Obj\<close> are the object's own properties in enumeration order,
  with distinct keys.
\<close>

datatype num = NaN | PosInf | NegInf | Fin rat

datatype jv =
    Undefined
  | Null
  | Bool bool
  | Num num
  | Str string
  | Arr "jv list"
  | Obj "(string \<times> jv) list"

text \<open>An \<^verbatim>\<open>Error\<close> object: its name and message, and the diagnostic fields that
  \<^verbatim>\<open>explainFetchError\<close> reads from \<^verbatim>\<open>err.cause || err\<close> (\<open>None\<close> when the field is
  absent or falsy, otherwise the text that a template literal renders for it).\<close>

record jserror =
  ename :: string
  message :: string
  cause_code :: "string option"
  cause_errno :: "string option"
  cause_address :: "string option"
  cause_port :: "string option"
  cause_syscall :: "string option"
  cause_host :: "string option"

definition Error :: "string \<Rightarrow> jserror" where
  "Error msg = \<lparr>ename = ''Error'', message = msg, cause_code = None, cause_errno = None,
     cause_address = None, cause_port = None, cause_syscall = None, cause_host = None\<rparr>"

text \<open>The \<^verbatim>\<open>TypeError\<close> of reading a property of \<^verbatim>\<open>undefined\<close> or \<^verbatim>\<open>null\<close>, or of
  calling what is not a function. The wording of its message is the engine's; the program
  swallows every such error and never prints it.\<close>

definition TypeError :: jserror where
  "TypeError = \<lparr>ename = ''TypeError'', message = ''TypeError'', cause_code = None, cause_errno = None,
     cause_address = None, cause_port = None, cause_syscall = None, cause_host = None\<rparr>"

definition nullish :: "jv \<Rightarrow> bool" where
  "nullish v = (v = Undefined \<or> v = Null)"

fun truthy :: "jv \<Rightarrow> bool" where
  "truthy Undefined = False"
| "truthy Null = False"
| "truthy (Bool b) = b"
| "truthy (Num n) = (n \<noteq> NaN \<and> n \<noteq> Fin 0)"
| "truthy (Str s) = (s \<noteq> [])"
| "truthy (Arr xs) = True"
| "truthy (Obj kvs) = True"

text \<open>\<^verbatim>\<open>a || b\<close>\<close>

definition or_else :: "jv \<Rightarrow> jv \<Rightarrow> jv" where
  "or_else a b = (if truthy a then a else b)"

text \<open>\<^verbatim>\<open>v.k\<close> for the property names this program reads (none of them is a method or an
  inherited property other than \<^verbatim>\<open>length\<close>): a \<^verbatim>\<open>TypeError\<close> on \<^verbatim>\<open>undefined\<close> and
  \<^verbatim>\<open>null\<close>, \<^verbatim>\<open>undefined\<close> for a property that is not there.\<close>

fun dot :: "jv \<Rightarrow> string \<Rightarrow> jserror + jv" where
  "dot Undefined k = Inl TypeError"
| "dot Null k = Inl TypeError"
| "dot (Obj kvs) k = Inr (case map_of kvs k of Some v \<Rightarrow> v | None \<Rightarrow> Undefined)"
| "dot (Arr xs) k = Inr (if k = ''length'' then Num (Fin (of_nat (length xs))) else Undefined)"
| "dot (Str s) k = Inr (if k = ''length'' then Num (Fin (of_nat (length s))) else Undefined)"
| "dot (Bool b) k = Inr Undefined"
| "dot (Num n) k = Inr Undefined"

text \<open>\<^verbatim>\<open>v?.k\<close>\<close>

definition opt_dot :: "jv \<Rightarrow> string \<Rightarrow> jv" where
  "opt_dot v k = (case dot v k of Inl _ \<Rightarrow> Undefined | Inr x \<Rightarrow> x)"

text \<open>The decimal digits of a natural number, as a template literal renders it.\<close>

fun decimal :: "nat \<Rightarrow> string" where
  "decimal n = (if n < 10 then [''0123456789'' ! n]
                else decimal (n div 10) @ [''0123456789'' ! (n mod 10)])"

declare decimal.simps [simp del]

text \<open>\<^verbatim>\<open>v[0]\<close>\<close>

fun at0 :: "jv \<Rightarrow> jserror + jv" where
  "at0 Undefined = Inl TypeError"
| "at0 Null = Inl TypeError"
| "at0 (Arr xs) = Inr (case xs of [] \<Rightarrow> Undefined | x # _ \<Rightarrow> x)"
| "at0 (Str s) = Inr (case s of [] \<Rightarrow> Undefined | c # _ \<Rightarrow> Str [c])"
| "at0 (Obj kvs) = Inr (case map_of kvs ''0'' of Some v \<Rightarrow> v | None \<Rightarrow> Undefined)"
| "at0 (Bool b) = Inr Undefined"
| "at0 (Num n) = Inr Undefined"

text \<open>\<^verbatim>\<open>v?.[0]\<close>\<close>

definition opt_at0 :: "jv \<Rightarrow> jv" where
  "opt_at0 v = (case at0 v of Inl _ \<Rightarrow> Undefined | Inr x \<Rightarrow> x)"

section \<open>The runtime and the world\<close>

text \<open>
  A URL is kept in two parts, the text before the query (the endpoint) and the search
  parameters, so that the provider a request goes to can be read off the request.
\<close>

record url =
  endpoint :: string
  search :: "(string \<times> string) list"

record request =
  target :: url
  rmethod :: string
  rheaders :: "(string \<times> string) list"
  rbody :: "string option"

text \<open>What \<^verbatim>\<open>fetch\<close> settles with: a response (its status and what \<^verbatim>\<open>res.text()\<close>
  settles with), or a rejection.\<close>

datatype fetch_result = Response nat "jserror + string" | Rejects jserror

text \<open>
  Everything the program takes from outside itself is a field of the runtime: the network
  (a test double that sees the requests issued so far and the new one, and answers with
  the time it takes in milliseconds and the result), the error of an aborted fetch,
  the built-in functions of the language that the model does not spell out, the
  random numbers, the calendar, and the environment variable.
\<close>

record runtime =
  net :: "request list \<Rightarrow> request \<Rightarrow> nat \<times> fetch_result"
  abort_error :: jserror
  JSON_parse :: "string \<Rightarrow> jv option"
  JSON_stringify :: "jv \<Rightarrow> string"
  href :: "url \<Rightarrow> string"
  numToString :: "num \<Rightarrow> string"
  parseFloat :: "jv \<Rightarrow> num"
  toUpperCase :: "string \<Rightarrow> string"
  encodeURIComponent :: "string \<Rightarrow> string"
  random250 :: "nat \<Rightarrow> nat"
  getFullYear :: "nat \<Rightarrow> nat"
  toISOString :: "nat \<Rightarrow> string"
  NOMINATIM_EMAIL :: jv

text \<open>The mutable state: the requests issued so far (oldest first), the clock
  (\<^verbatim>\<open>Date.now()\<close>), the rate gate's timestamp, and the number of random numbers drawn.\<close>

record world =
  requests :: "request list"
  clock :: nat
  lastGeocodeAt :: nat
  draws :: nat

definition sleep :: "nat \<Rightarrow> world \<Rightarrow> world" where
  "sleep ms w = w\<lparr>clock := clock w + ms\<rparr>"

text \<open>\<^verbatim>\<open>String(v)\<close>\<close>

fun join :: "string \<Rightarrow> string list \<Rightarrow> string" where
  "join sep [] = []"
| "join sep [s] = s"
| "join sep (s # t # ss) = s @ sep @ join sep (t # ss)"

fun toString :: "runtime \<Rightarrow> jv \<Rightarrow> string" where
  "toString e Undefined = ''undefined''"
| "toString e Null = ''null''"
| "toString e (Bool b) = (if b then ''true'' else ''false'')"
| "toString e (Num n) = numToString e n"
| "toString e (Str s) = s"
| "toString e (Arr xs) = join '','' (map (\<lambda>x. if nullish x then [] else toString e x) xs)"
| "toString e (Obj kvs) = ''[object Object]''"

section \<open>Utils\<close>

text \<open>\<^verbatim>\<open>u.searchParams.set(k, v)\<close>: the first pair named \<open>k\<close> takes the value and the
  later ones go; a new name is appended.\<close>

fun searchParams_set :: "string \<Rightarrow> string \<Rightarrow> (string \<times> string) list \<Rightarrow> (string \<times> string) list" where
  "searchParams_set k v [] = [(k, v)]"
| "searchParams_set k v ((k', v') # q) =
     (if k' = k then (k, v) # filter (\<lambda>p. fst p \<noteq> k) q else (k', v') # searchParams_set k v q)"

definition withQuery :: "runtime \<Rightarrow> url \<Rightarrow> (string \<times> jv) list \<Rightarrow> url" where
  "withQuery e u params =
     (if params = [] then u
      else foldl (\<lambda>u kv. if snd kv = Undefined \<or> snd kv = Null then u
                          else u\<lparr>search := searchParams_set (fst kv) (toString e (snd kv)) (search u)\<rparr>)
             u params)"

definition explainFetchError :: "jserror option \<Rightarrow> string" where
  "explainFetchError err =
     (case err of
        None \<Rightarrow> ''Erro desconhecido''
      | Some er \<Rightarrow>
          join '' | ''
            ([if message er \<noteq> [] then message er else ename er]
             @ (case cause_code er of Some c \<Rightarrow> [''code='' @ c] | None \<Rightarrow> [])
             @ (case cause_errno er of Some c \<Rightarrow> [''errno='' @ c] | None \<Rightarrow> [])
             @ (case cause_address er of Some c \<Rightarrow> [''addr='' @ c] | None \<Rightarrow> [])
             @ (case cause_port er of Some c \<Rightarrow> [''port='' @ c] | None \<Rightarrow> [])
             @ (case cause_syscall er of Some c \<Rightarrow> [''syscall='' @ c] | None \<Rightarrow> [])
             @ (case cause_host er of Some c \<Rightarrow> [''host='' @ c] | None \<Rightarrow> [])))"

section \<open>Resilient fetch\<close>

record fetch_opts =
  http_method :: string
  params :: "(string \<times> jv) list"
  headers :: "(string \<times> string) list"
  body :: jv
  timeoutMs :: nat
  retries :: nat
  baseDelayMs :: nat

text \<open>The defaults of \<^verbatim>\<open>fetchJSON\<close>'s options; absent \<^verbatim>\<open>params\<close> are the empty list.\<close>

definition defaults :: fetch_opts where
  "defaults = \<lparr>http_method = ''GET'', params = [], headers = [], body = Undefined,
     timeoutMs = 12000, retries = 4, baseDelayMs = 350\<rparr>"

text \<open>Assignment to a property of an object, and the spread of one object over another.\<close>

fun assign :: "string \<Rightarrow> 'a \<Rightarrow> (string \<times> 'a) list \<Rightarrow> (string \<times> 'a) list" where
  "assign k v [] = [(k, v)]"
| "assign k v ((k', v') # q) = (if k' = k then (k, v) # q else (k', v') # assign k v q)"

definition spread :: "(string \<times> 'a) list \<Rightarrow> (string \<times> 'a) list \<Rightarrow> (string \<times> 'a) list" where
  "spread dst src = foldl (\<lambda>obj kv. assign (fst kv) (snd kv) obj) dst src"

text \<open>The call of \<^verbatim>\<open>fetch\<close> under the abort timer: the request is issued and logged; a
  reply that takes as long as the timeout or longer is aborted.\<close>

definition fetch :: "runtime \<Rightarrow> request \<Rightarrow> nat \<Rightarrow> world \<Rightarrow> fetch_result \<times> world" where
  "fetch e req tmo w =
     (let (ms, res) = net e (requests w) req;
          w' = w\<lparr>requests := requests w @ [req]\<rparr>
      in if tmo \<le> ms then (Rejects (abort_error e), sleep tmo w')
         else (res, sleep ms w'))"

text \<open>The regular expression of the catch block, matched case-insensitively anywhere
  in the message.\<close>

definition lower :: "char \<Rightarrow> char" where
  "lower c = (let n = (of_char c :: nat) in if 65 \<le> n \<and> n \<le> 90 then char_of (n + 32) else c)"

fun contains :: "string \<Rightarrow> string \<Rightarrow> bool" where
  "contains p [] = (p = [])"
| "contains p (c # cs) = (take (length p) (c # cs) = p \<or> contains p cs)"

definition transient :: "string \<Rightarrow> bool" where
  "transient msg =
     list_ex (\<lambda>p. contains (map lower p) (map lower msg))
       [''abort'', ''timed out'', ''ECONNRESET'', ''ECONNREFUSED'', ''EAI_AGAIN'', ''ETIMEDOUT'',
        ''socket hang up'', ''Client network socket disconnected'']"

definition ok :: "nat \<Rightarrow> bool" where
  "ok status = (200 \<le> status \<and> status \<le> 299)"

definition retryable :: "nat \<Rightarrow> bool" where
  "retryable status = (status \<in> set [408, 425, 429, 500, 502, 503, 504])"

text \<open>How the \<^verbatim>\<open>try\<close> block of one attempt completes when nothing is thrown: it returns
  the parsed value, or it falls through to the delay with \<^verbatim>\<open>lastErr\<close> assigned.
  \<open>Inl\<close> is a throw inside the block, which the \<^verbatim>\<open>catch\<close> block of the same
  statement receives.\<close>

datatype completion = Return jv | Fallthrough jserror

definition try_block :: "runtime \<Rightarrow> string \<Rightarrow> fetch_opts \<Rightarrow> nat \<Rightarrow> fetch_result \<Rightarrow> jserror + completion" where
  "try_block e finalUrl opts attempt res =
     (case res of
        Rejects err \<Rightarrow> Inl err
      | Response status txt \<Rightarrow>
          if ok status then
            (case txt of
               Inl err \<Rightarrow> Inl err
             | Inr text \<Rightarrow>
                 (case JSON_parse e text of
                    Some v \<Rightarrow> Inr (Return v)
                  | None \<Rightarrow>
                      (let err = Error (''JSON inv'' @ [CHR 0xE1] @ ''lido de '' @ finalUrl)
                       in if attempt = retries opts then Inl err else Inr (Fallthrough err))))
          else if \<not> retryable status \<or> attempt = retries opts then
            (let bodyTxt = (case txt of Inl _ \<Rightarrow> [] | Inr t \<Rightarrow> t)
             in Inl (Error (''HTTP '' @ decimal status @ '' em '' @ finalUrl
                      @ (if bodyTxt \<noteq> [] then '' - '' @ take 200 bodyTxt else []))))
          else Inr (Fallthrough (Error (''HTTP '' @ decimal status @ '' (tentativa ''
                      @ decimal (attempt + 1) @ ''/'' @ decimal (retries opts + 1) @ '')''))))"

definition catch_block :: "fetch_opts \<Rightarrow> nat \<Rightarrow> jserror \<Rightarrow> jserror + completion" where
  "catch_block opts attempt err =
     (let msg = explainFetchError (Some err);
          tr = transient msg
      in if \<not> tr \<and> attempt = retries opts then Inl (Error msg)
         else if attempt = retries opts then Inl (Error msg)
         else Inr (Fallthrough err))"

text \<open>One pass through the body of the \<^verbatim>\<open>for\<close> loop up to the end of the
  \<^verbatim>\<open>try\<close> statement: the request, the \<^verbatim>\<open>try\<close> block, and the \<^verbatim>\<open>catch\<close> block when the
  \<^verbatim>\<open>try\<close> block throws. \<open>Inl\<close> is what \<^verbatim>\<open>fetchJSON\<close> then throws.\<close>

definition attempt_once ::
  "runtime \<Rightarrow> request \<Rightarrow> fetch_opts \<Rightarrow> nat \<Rightarrow> world \<Rightarrow> (jserror + completion) \<times> world" where
  "attempt_once e req opts attempt w =
     (case fetch e req (timeoutMs opts) w of (res, w1) \<Rightarrow>
        ((case try_block e (href e (target req)) opts attempt res of
            Inl err \<Rightarrow> catch_block opts attempt err
          | Inr c \<Rightarrow> Inr c), w1))"

text \<open>The delay between two attempts.\<close>

definition backoff :: "runtime \<Rightarrow> fetch_opts \<Rightarrow> nat \<Rightarrow> world \<Rightarrow> world" where
  "backoff e opts attempt w =
     (let delay = baseDelayMs opts * 2 ^ attempt + random250 e (draws w) mod 250
      in sleep delay (w\<lparr>draws := draws w + 1\<rparr>))"

text \<open>The \<^verbatim>\<open>for\<close> loop of \<^verbatim>\<open>fetchJSON\<close>, from \<open>attempt\<close> on.\<close>

function fetchJSON_loop ::
  "runtime \<Rightarrow> request \<Rightarrow> fetch_opts \<Rightarrow> nat \<Rightarrow> jserror option \<Rightarrow> world \<Rightarrow> (jserror + jv) \<times> world" where
  "fetchJSON_loop e req opts attempt lastErr w =
     (if attempt \<le> retries opts then
        (case attempt_once e req opts attempt w of
           (Inl err, w1) \<Rightarrow> (Inl err, w1)
         | (Inr (Return v), w1) \<Rightarrow> (Inr v, w1)
         | (Inr (Fallthrough le), w1) \<Rightarrow>
             fetchJSON_loop e req opts (attempt + 1) (Some le) (backoff e opts attempt w1))
      else (Inl (case lastErr of Some er \<Rightarrow> er | None \<Rightarrow> Error ''Falha desconhecida''), w))"
  by pat_completeness auto
termination
  by (relation "measure (\<lambda>(e, req, opts, attempt, lastErr, w). retries opts + 1 - attempt)") auto

declare fetchJSON_loop.simps [simp del]

definition mk_request :: "runtime \<Rightarrow> url \<Rightarrow> fetch_opts \<Rightarrow> request" where
  "mk_request e finalUrl opts =
     \<lparr>target = finalUrl,
      rmethod = http_method opts,
      rheaders = spread
        ([(''User-Agent'', ''TravelInfo/1.0 (+contato@seudominio.com)''),
          (''Accept'', ''application/json'')]
         @ (if truthy (body opts) then [(''Content-Type'', ''application/json'')] else []))
        (headers opts),
      rbody = (if truthy (body opts) then Some (JSON_stringify e (body opts)) else None)\<rparr>"

definition fetchJSON :: "runtime \<Rightarrow> url \<Rightarrow> fetch_opts \<Rightarrow> world \<Rightarrow> (jserror + jv) \<times> world" where
  "fetchJSON e u opts w =
     fetchJSON_loop e (mk_request e (withQuery e u (params opts)) opts) opts 0 None w"

section \<open>Geocoding: rate limit and fallbacks\<close>

definition GEOCODE_MIN_INTERVAL_MS :: nat where
  "GEOCODE_MIN_INTERVAL_MS = 1200"

definition waitGeocodeSlot :: "world \<Rightarrow> world" where
  "waitGeocodeSlot w =
     (let now = clock w;
          wait = nat (max 0 (int (lastGeocodeAt w) + int GEOCODE_MIN_INTERVAL_MS - int now));
          w1 = (if wait \<noteq> 0 then sleep wait w else w)
      in w1\<lparr>lastGeocodeAt := clock w1\<rparr>)"

record geo =
  name :: jv
  country :: jv
  country_code :: jv
  latitude :: jv
  longitude :: jv
  timezone :: jv

text \<open>Sequencing of steps that may throw.\<close>

definition bind :: "jserror + 'a \<Rightarrow> ('a \<Rightarrow> jserror + 'b) \<Rightarrow> jserror + 'b" where
  "bind m f = (case m of Inl er \<Rightarrow> Inl er | Inr x \<Rightarrow> f x)"

text \<open>The addresses of the geocoding providers, and the request of the first one.\<close>

definition open_meteo_search :: url where
  "open_meteo_search = \<lparr>endpoint = ''https://geocoding-api.open-meteo.com/v1/search'', search = []\<rparr>"

definition nominatim_search :: url where
  "nominatim_search = \<lparr>endpoint = ''https://nominatim.openstreetmap.org/search'', search = []\<rparr>"

definition nominatim_reverse :: url where
  "nominatim_reverse = \<lparr>endpoint = ''https://nominatim.openstreetmap.org/reverse'', search = []\<rparr>"

definition maps_co_search :: url where
  "maps_co_search = \<lparr>endpoint = ''https://geocode.maps.co/search'', search = []\<rparr>"

definition open_meteo_opts :: "string \<Rightarrow> fetch_opts" where
  "open_meteo_opts city =
     defaults\<lparr>params := [(''name'', Str city), (''count'', Num (Fin 1)),
                          (''language'', Str ''pt''), (''format'', Str ''json'')],
               timeoutMs := 12000\<rparr>"

text \<open>
  Each of the three \<^verbatim>\<open>try\<close> blocks of \<^verbatim>\<open>geocodeCity\<close> is a function of its own. Its
  result is \<open>Inl\<close> when the block throws, \<open>Inr (Some g)\<close> when it returns \<open>g\<close>,
  and \<open>Inr None\<close> when it ends without returning.
\<close>

definition openMeteo :: "runtime \<Rightarrow> string \<Rightarrow> world \<Rightarrow> (jserror + geo option) \<times> world" where
  "openMeteo e city w =
     (case fetchJSON e open_meteo_search (open_meteo_opts city) w of
        (Inl er, w1) \<Rightarrow> (Inl er, w1)
      | (Inr data, w1) \<Rightarrow>
          (if truthy (opt_dot (opt_dot data ''results'') ''length'') then
             (bind (dot data ''results'') (\<lambda>results.
              bind (at0 results) (\<lambda>r.
              bind (dot r ''name'') (\<lambda>r_name.
              bind (dot r ''country'') (\<lambda>r_country.
              bind (dot r ''country_code'') (\<lambda>r_country_code.
              bind (dot r ''latitude'') (\<lambda>r_latitude.
              bind (dot r ''longitude'') (\<lambda>r_longitude.
              bind (dot r ''timezone'') (\<lambda>r_timezone.
                Inr (Some \<lparr>name = r_name, country = r_country, country_code = r_country_code,
                            latitude = r_latitude, longitude = r_longitude,
                            timezone = r_timezone\<rparr>))))))))),
              w1)
           else (Inr None, w1)))"

text \<open>\<^verbatim>\<open>v.toUpperCase()\<close>: only a string has the method.\<close>

definition upper :: "runtime \<Rightarrow> jv \<Rightarrow> jserror + string" where
  "upper e v = (case v of Str s \<Rightarrow> Inr (toUpperCase e s) | _ \<Rightarrow> Inl TypeError)"

text \<open>\<^verbatim>\<open>v?.split(',')[0]\<close>\<close>

definition split0 :: "jv \<Rightarrow> jserror + jv" where
  "split0 v =
     (if nullish v then Inr Undefined
      else case v of Str s \<Rightarrow> Inr (Str (takeWhile (\<lambda>c. c \<noteq> CHR '','') s)) | _ \<Rightarrow> Inl TypeError)"

definition isFinite :: "num \<Rightarrow> bool" where
  "isFinite n = (case n of Fin _ \<Rightarrow> True | _ \<Rightarrow> False)"

text \<open>The reverse lookup that recovers a missing country code, as written in both
  fallbacks (the second reads the e-mail address from the environment again, which gives
  the same value). Its own \<^verbatim>\<open>try\<close> block swallows every failure and leaves \<open>cc\<close>.\<close>

definition reverse :: "runtime \<Rightarrow> num \<Rightarrow> num \<Rightarrow> jv \<Rightarrow> world \<Rightarrow> jv \<times> world" where
  "reverse e lat lon cc w =
     (case fetchJSON e nominatim_reverse
             (defaults\<lparr>params := [(''lat'', Num lat), (''lon'', Num lon), (''format'', Str ''jsonv2''),
                                   (''addressdetails'', Num (Fin 1)), (''accept-language'', Str ''pt''),
                                   (''email'', NOMINATIM_EMAIL e)],
                        timeoutMs := 12000,
                        headers := [(''Accept-Language'', ''pt'')]\<rparr>) (waitGeocodeSlot w) of
        (Inl er, w1) \<Rightarrow> (cc, w1)
      | (Inr rv, w1) \<Rightarrow>
          (case upper e (or_else (opt_dot (opt_dot rv ''address'') ''country_code'') (Str [])) of
             Inl er \<Rightarrow> (cc, w1)
           | Inr u \<Rightarrow> (or_else (Str u) cc, w1)))"

text \<open>What both fallbacks do with the parsed reply of their search request (the two
  blocks are the same text in the source).\<close>

definition searchResult :: "runtime \<Rightarrow> string \<Rightarrow> jv \<Rightarrow> world \<Rightarrow> (jserror + geo option) \<times> world" where
  "searchResult e city data w =
     (case data of
        Arr (r # rs) \<Rightarrow>
          (case bind (dot r ''lat'') (\<lambda>r_lat.
                bind (dot r ''lon'') (\<lambda>r_lon.
                bind (dot r ''address'') (\<lambda>r_address.
                bind (upper e (or_else (opt_dot r_address ''country_code'') (Str []))) (\<lambda>u.
                  Inr (parseFloat e r_lat, parseFloat e r_lon,
                       or_else (Str u) Null, or_else (opt_dot r_address ''country'') Null))))) of
             Inl er \<Rightarrow> (Inl er, w)
           | Inr (lat, lon, cc0, country0) \<Rightarrow>
               (case (if \<not> truthy cc0 \<and> isFinite lat \<and> isFinite lon
                      then reverse e lat lon cc0 w else (cc0, w)) of
                  (cc, w1) \<Rightarrow>
                    (bind (dot r ''display_name'') (\<lambda>display_name.
                     bind (split0 display_name) (\<lambda>seg.
                       Inr (Some \<lparr>name = or_else seg (Str city), country = or_else country0 Null,
                                   country_code = cc, latitude = Num lat, longitude = Num lon,
                                   timezone = Null\<rparr>))),
                     w1)))
      | _ \<Rightarrow> (Inr None, w))"

definition nominatim :: "runtime \<Rightarrow> string \<Rightarrow> world \<Rightarrow> (jserror + geo option) \<times> world" where
  "nominatim e city w =
     (let nomParams = [(''q'', Str city), (''format'', Str ''jsonv2''), (''addressdetails'', Num (Fin 1)),
                       (''limit'', Num (Fin 1)), (''accept-language'', Str ''pt'')];
          email = NOMINATIM_EMAIL e;
          nomParams = (if truthy email then assign ''email'' email nomParams else nomParams)
      in case fetchJSON e nominatim_search
                (defaults\<lparr>params := nomParams, timeoutMs := 15000,
                           headers := [(''Accept-Language'', ''pt'')]\<rparr>) w of
           (Inl er, w1) \<Rightarrow> (Inl er, w1)
         | (Inr data2, w1) \<Rightarrow> searchResult e city data2 w1)"

definition mapsCo :: "runtime \<Rightarrow> string \<Rightarrow> world \<Rightarrow> (jserror + geo option) \<times> world" where
  "mapsCo e city w =
     (case fetchJSON e maps_co_search
             (defaults\<lparr>params := [(''q'', Str city), (''limit'', Num (Fin 1))],
                        timeoutMs := 12000,
                        headers := [(''Accept-Language'', ''pt'')]\<rparr>) w of
        (Inl er, w1) \<Rightarrow> (Inl er, w1)
      | (Inr data3, w1) \<Rightarrow> searchResult e city data3 w1)"

text \<open>What a \<^verbatim>\<open>try { ... } catch (_) { }\<close> of \<^verbatim>\<open>geocodeCity\<close> leaves: the value the block
  returned, or nothing (it threw, or it ended without returning).\<close>

definition returned :: "jserror + geo option \<Rightarrow> geo option" where
  "returned r = (case r of Inl _ \<Rightarrow> None | Inr g \<Rightarrow> g)"

definition geocodeCity :: "runtime \<Rightarrow> string \<Rightarrow> world \<Rightarrow> geo option \<times> world" where
  "geocodeCity e city w =
     (case openMeteo e city w of (r1, w1) \<Rightarrow>
        (case returned r1 of
           Some g \<Rightarrow> (Some g, w1)
         | None \<Rightarrow>
             (case nominatim e city (waitGeocodeSlot w1) of (r2, w2) \<Rightarrow>
                (case returned r2 of
                   Some g \<Rightarrow> (Some g, w2)
                 | None \<Rightarrow>
                     (case mapsCo e city (waitGeocodeSlot w2) of (r3, w3) \<Rightarrow>
                        (case returned r3 of
                           Some g \<Rightarrow> (Some g, w3)
                         | None \<Rightarrow> (None, w3)))))))"

section \<open>The other integrations\<close>

record weather =
  current :: jv
  daily :: jv

text \<open>The request for a forecast.\<close>

definition forecast_url :: url where
  "forecast_url = \<lparr>endpoint = ''https://api.open-meteo.com/v1/forecast'', search = []\<rparr>"

definition forecast_opts :: "jv \<Rightarrow> jv \<Rightarrow> jv \<Rightarrow> fetch_opts" where
  "forecast_opts lat lon tz =
     defaults\<lparr>params := [(''latitude'', lat), (''longitude'', lon),
                          (''daily'', Str (join '','' [''temperature_2m_max'', ''temperature_2m_min'',
                                                      ''precipitation_sum'', ''windspeed_10m_max''])),
                          (''current_weather'', Bool True),
                          (''timezone'', or_else tz (Str ''auto'')),
                          (''forecast_days'', Num (Fin 7))],
               timeoutMs := 12000\<rparr>"

definition getWeather :: "runtime \<Rightarrow> jv \<Rightarrow> jv \<Rightarrow> jv \<Rightarrow> world \<Rightarrow> (jserror + weather) \<times> world" where
  "getWeather e lat lon tz w =
     (case fetchJSON e forecast_url (forecast_opts lat lon tz) w of
        (Inl er, w1) \<Rightarrow> (Inl er, w1)
      | (Inr data, w1) \<Rightarrow>
          (Inr \<lparr>current = or_else (opt_dot data ''current_weather'') Null,
                daily = or_else (opt_dot data ''daily'') Null\<rparr>, w1))"

record currency =
  code :: string
  cname :: jv
  symbol :: jv

record country_info =
  nameOfficial :: jv
  region :: jv
  subregion :: jv
  capital :: jv
  currencies :: "currency list"
  languages :: "jv list"
  callingCode :: jv

text \<open>\<^verbatim>\<open>Object.entries(v)\<close> of a truthy value.\<close>

fun entries :: "jv \<Rightarrow> (string \<times> jv) list" where
  "entries (Obj kvs) = kvs"
| "entries (Arr xs) = zip (map decimal [0..<length xs]) xs"
| "entries (Str s) = zip (map decimal [0..<length s]) (map (\<lambda>c. Str [c]) s)"
| "entries v = []"

text \<open>The callback of \<^verbatim>\<open>.map\<close> over the entries of \<^verbatim>\<open>c.currencies\<close>, entry by entry;
  it throws at the first entry whose value is \<^verbatim>\<open>null\<close>.\<close>

fun map_currencies :: "(string \<times> jv) list \<Rightarrow> jserror + currency list" where
  "map_currencies [] = Inr []"
| "map_currencies ((k, v) # kvs) =
     bind (dot v ''name'') (\<lambda>v_name.
     bind (dot v ''symbol'') (\<lambda>v_symbol.
     bind (map_currencies kvs) (\<lambda>rest.
       Inr (\<lparr>code = k, cname = v_name, symbol = v_symbol\<rparr> # rest))))"

text \<open>The address of the data of a country.\<close>

definition country_url :: "runtime \<Rightarrow> jv \<Rightarrow> url" where
  "country_url e iso2 =
     \<lparr>endpoint = ''https://restcountries.com/v3.1/alpha/'' @ encodeURIComponent e (toString e iso2),
      search = []\<rparr>"

definition getCountryInfo :: "runtime \<Rightarrow> jv \<Rightarrow> world \<Rightarrow> (jserror + country_info option) \<times> world" where
  "getCountryInfo e iso2 w =
     (if \<not> truthy iso2 then (Inr None, w)
      else
        case fetchJSON e (country_url e iso2) (defaults\<lparr>timeoutMs := 12000\<rparr>) w of
          (Inl er, w1) \<Rightarrow> (Inl er, w1)
        | (Inr data, w1) \<Rightarrow>
            (let c = (case data of Arr xs \<Rightarrow> (case xs of [] \<Rightarrow> Undefined | x # _ \<Rightarrow> x) | _ \<Rightarrow> data)
             in (bind (if truthy (opt_dot c ''currencies'')
                       then map_currencies (entries (opt_dot c ''currencies'')) else Inr [])
                  (\<lambda>currencies.
                     Inr (Some
                       \<lparr>nameOfficial = opt_dot (opt_dot c ''name'') ''official'',
                        region = opt_dot c ''region'',
                        subregion = opt_dot c ''subregion'',
                        capital = or_else (opt_at0 (opt_dot c ''capital'')) Null,
                        currencies = currencies,
                        languages = (if truthy (opt_dot c ''languages'')
                                     then map snd (entries (opt_dot c ''languages'')) else []),
                        callingCode =
                          (if truthy (opt_dot (opt_dot c ''idd'') ''root'')
                              \<and> truthy (opt_at0 (opt_dot (opt_dot c ''idd'') ''suffixes''))
                           then Str (toString e (opt_dot (opt_dot c ''idd'') ''root'')
                                     @ toString e (opt_at0 (opt_dot (opt_dot c ''idd'') ''suffixes'')))
                           else Null)\<rparr>)),
                 w1)))"

text \<open>
  The comparison of \<^verbatim>\<open>h.date\<close> with \<^verbatim>\<open>today\<close>. Two strings are compared code unit by
  code unit; an array or an object is compared through its string form. \<^verbatim>\<open>today\<close> is the
  first ten characters of an ISO timestamp, which as a number is not-a-number, so against
  \<^verbatim>\<open>undefined\<close>, \<^verbatim>\<open>null\<close>, a boolean or a number both \<^verbatim>\<open><\<close> and \<^verbatim>\<open>>=\<close> are false.
\<close>

fun less_str :: "string \<Rightarrow> string \<Rightarrow> bool" where
  "less_str [] [] = False"
| "less_str [] (y # ys) = True"
| "less_str (x # xs) [] = False"
| "less_str (x # xs) (y # ys) =
     (if (of_char x :: nat) < of_char y then True
      else if (of_char y :: nat) < of_char x then False
      else less_str xs ys)"

definition toPrimitive :: "runtime \<Rightarrow> jv \<Rightarrow> string option" where
  "toPrimitive e v =
     (case v of Str s \<Rightarrow> Some s | Arr xs \<Rightarrow> Some (toString e v) | Obj kvs \<Rightarrow> Some (toString e v)
      | _ \<Rightarrow> None)"

definition date_ge :: "runtime \<Rightarrow> string \<Rightarrow> jv \<Rightarrow> bool" where
  "date_ge e today d = (case toPrimitive e d of Some s \<Rightarrow> \<not> less_str s today | None \<Rightarrow> False)"

definition date_lt :: "runtime \<Rightarrow> string \<Rightarrow> jv \<Rightarrow> bool" where
  "date_lt e today d = (case toPrimitive e d of Some s \<Rightarrow> less_str s today | None \<Rightarrow> False)"

text \<open>\<^verbatim>\<open>data.filter(h => p(h.date))\<close> on the elements of an array; the callback throws at an
  element that is \<^verbatim>\<open>null\<close>.\<close>

fun filter_date :: "(jv \<Rightarrow> bool) \<Rightarrow> jv list \<Rightarrow> jserror + jv list" where
  "filter_date p [] = Inr []"
| "filter_date p (h # hs) =
     bind (dot h ''date'') (\<lambda>d.
     bind (filter_date p hs) (\<lambda>rest. Inr (if p d then h # rest else rest)))"

record holidays =
  year :: nat
  upcoming :: "jv list"
  past :: "jv list"

text \<open>The address of the holidays of a year and country.\<close>

definition holidays_url :: "runtime \<Rightarrow> nat \<Rightarrow> jv \<Rightarrow> url" where
  "holidays_url e y iso2 =
     \<lparr>endpoint = ''https://date.nager.at/api/v3/PublicHolidays/'' @ decimal y
                   @ ''/'' @ encodeURIComponent e (toString e iso2), search = []\<rparr>"

definition getHolidays :: "runtime \<Rightarrow> jv \<Rightarrow> world \<Rightarrow> (jserror + holidays option) \<times> world" where
  "getHolidays e iso2 w =
     (if \<not> truthy iso2 then (Inr None, w)
      else
        let year = getFullYear e (clock w)
        in case fetchJSON e (holidays_url e year iso2) (defaults\<lparr>timeoutMs := 12000\<rparr>) w of
             (Inl er, w1) \<Rightarrow> (Inl er, w1)
           | (Inr data, w1) \<Rightarrow>
               (let today = take 10 (toISOString e (clock w1))
                in (case data of
                      Arr hs \<Rightarrow>
                        bind (filter_date (date_ge e today) hs) (\<lambda>ge.
                        bind (filter_date (date_lt e today) hs) (\<lambda>lt.
                          Inr (Some \<lparr>year = year, upcoming = take 5 ge,
                                      past = drop (length lt - 5) lt\<rparr>)))
                    | _ \<Rightarrow> Inl TypeError,
                    w1)))"

text \<open>The request for an exchange rate.\<close>

definition exchangerate_latest :: url where
  "exchangerate_latest = \<lparr>endpoint = ''https://api.exchangerate.host/latest'', search = []\<rparr>"

definition exchangerate_opts :: "jv \<Rightarrow> string \<Rightarrow> fetch_opts" where
  "exchangerate_opts base_cur quote_cur =
     defaults\<lparr>params := [(''base'', base_cur), (''symbols'', Str quote_cur)], timeoutMs := 10000\<rparr>"

definition getExchangeRate :: "runtime \<Rightarrow> jv \<Rightarrow> string \<Rightarrow> world \<Rightarrow> (jserror + jv) \<times> world" where
  "getExchangeRate e base_cur quote_cur w =
     (if \<not> truthy base_cur then (Inr Null, w)
      else
        case fetchJSON e exchangerate_latest (exchangerate_opts base_cur quote_cur) w of
          (Inl er, w1) \<Rightarrow> (Inl er, w1)
        | (Inr data, w1) \<Rightarrow> (Inr (or_else (opt_dot (opt_dot data ''rates'') quote_cur) Null), w1))"

section \<open>Core\<close>

record coordinates =
  c_latitude :: jv
  c_longitude :: jv

record destination =
  input :: string
  resolvedName :: jv
  dest_country :: jv
  countryCode :: jv
  coords :: coordinates
  dest_timezone :: jv

record exchange_rate =
  base :: string
  quote :: string
  rate :: jv

text \<open>The composite record; \<open>None\<close> is \<^verbatim>\<open>null\<close>.\<close>

record travel_info =
  destination :: destination
  weather :: "weather option"
  countryInfo :: "country_info option"
  holidays :: "holidays option"
  exchange :: "exchange_rate option"
  sources :: "string list"

text \<open>An element of the array that \<^verbatim>\<open>Promise.allSettled\<close> resolves to.\<close>

datatype 'a settled = is_fulfilled: Fulfilled 'a | Rejected jserror

definition settle :: "jserror + 'a \<Rightarrow> 'a settled" where
  "settle r = (case r of Inl er \<Rightarrow> Rejected er | Inr v \<Rightarrow> Fulfilled v)"

text \<open>\<^verbatim>\<open>info?.currencies?.[0]?.code\<close>, also written \<^verbatim>\<open>countryInfo?.currencies?.[0]?.code\<close>\<close>

definition first_code :: "country_info option \<Rightarrow> jv" where
  "first_code info =
     (case info of
        None \<Rightarrow> Undefined
      | Some i \<Rightarrow> (case currencies i of [] \<Rightarrow> Undefined | c # _ \<Rightarrow> Str (code c)))"

text \<open>The fourth branch, the anonymous \<^verbatim>\<open>async\<close> function.\<close>

definition fxBranch :: "runtime \<Rightarrow> jv \<Rightarrow> world \<Rightarrow> (jserror + jv) \<times> world" where
  "fxBranch e cc w =
     (case getCountryInfo e cc w of
        (Inl er, w1) \<Rightarrow> (Inl er, w1)
      | (Inr info, w1) \<Rightarrow>
          (let currencyCode = or_else (first_code info) Null
           in if truthy currencyCode then getExchangeRate e currencyCode ''BRL'' w1
              else (Inr Null, w1)))"

text \<open>
  The four branches run concurrently in the source, and \<^verbatim>\<open>Promise.allSettled\<close> waits
  until each has settled. The model runs them one after the other, in the order in which
  the source starts them, each on the world the one before left; what each branch does and
  what it settles with is as in the source, only the interleaving of their requests in the
  log and the sum of their waiting times are those of this one schedule.
\<close>

definition allSettled ::
  "runtime \<Rightarrow> geo \<Rightarrow> world \<Rightarrow>
     (weather settled \<times> country_info option settled \<times> holidays option settled \<times> jv settled) \<times> world" where
  "allSettled e g w =
     (case getWeather e (latitude g) (longitude g) (timezone g) w of (r1, w1) \<Rightarrow>
      case getCountryInfo e (country_code g) w1 of (r2, w2) \<Rightarrow>
      case getHolidays e (country_code g) w2 of (r3, w3) \<Rightarrow>
      case fxBranch e (country_code g) w3 of (r4, w4) \<Rightarrow>
        ((settle r1, settle r2, settle r3, settle r4), w4))"

text \<open>The record that \<^verbatim>\<open>makeTravelInfoRequest\<close> returns, from the four settled results.\<close>

definition compose ::
  "string \<Rightarrow> geo \<Rightarrow> weather settled \<Rightarrow> country_info option settled \<Rightarrow> holidays option settled \<Rightarrow>
     jv settled \<Rightarrow> travel_info" where
  "compose city g weatherRes countryRes holidaysRes fxRes =
     (let countryInfo = (case countryRes of Fulfilled v \<Rightarrow> v | Rejected _ \<Rightarrow> None);
          fxRate = (case fxRes of Fulfilled v \<Rightarrow> v | Rejected _ \<Rightarrow> Null);
          weather = (case weatherRes of Fulfilled v \<Rightarrow> Some v | Rejected _ \<Rightarrow> None);
          holidays = (case holidaysRes of Fulfilled v \<Rightarrow> v | Rejected _ \<Rightarrow> None)
      in \<lparr>destination =
             \<lparr>input = city, resolvedName = name g, dest_country = country g,
              countryCode = country_code g,
              coords = \<lparr>c_latitude = latitude g, c_longitude = longitude g\<rparr>,
              dest_timezone = timezone g\<rparr>,
          weather = weather,
          countryInfo = countryInfo,
          holidays = holidays,
          exchange =
            (if truthy fxRate \<and> truthy (first_code countryInfo)
             then (case countryInfo of
                     Some i \<Rightarrow> (case currencies i of
                                  c # _ \<Rightarrow> Some \<lparr>base = code c, quote = ''BRL'', rate = fxRate\<rparr>
                                | [] \<Rightarrow> None)
                   | None \<Rightarrow> None)
             else None),
          sources = [''https://nominatim.openstreetmap.org/'', ''https://geocode.maps.co/'',
                     ''https://open-meteo.com/en/docs'', ''https://restcountries.com/'',
                     ''https://date.nager.at'', ''https://exchangerate.host'']\<rparr>)"

definition makeTravelInfoRequest :: "runtime \<Rightarrow> string \<Rightarrow> world \<Rightarrow> (jserror + travel_info) \<times> world" where
  "makeTravelInfoRequest e city w =
     (case geocodeCity e city w of
        (None, w1) \<Rightarrow>
          (Inl (Error (''N'' @ [CHR 0xE3] @ ''o foi poss'' @ [CHR 0xED] @ ''vel geocodificar ''
                       @ [CHR 0x22] @ city @ [CHR 0x22])), w1)
      | (Some g, w1) \<Rightarrow>
          (case allSettled e g w1 of
             ((weatherRes, countryRes, holidaysRes, fxRes), w2) \<Rightarrow>
               (Inr (compose city g weatherRes countryRes holidaysRes fxRes), w2)))"

section \<open>The batch\<close>

record outcome =
  originalItem :: jv
  processed :: bool
  status :: string
  error :: "string option"
  processedAt :: string
  data :: "travel_info option"

definition whitespace :: "char \<Rightarrow> bool" where
  "whitespace c = ((of_char c :: nat) \<in> set [9, 10, 11, 12, 13, 32, 160])"

definition trim :: "string \<Rightarrow> string" where
  "trim s = rev (dropWhile whitespace (rev (dropWhile whitespace s)))"

text \<open>The body of the loop of \<^verbatim>\<open>processItems\<close>: the record pushed for one item.\<close>

definition processItem :: "runtime \<Rightarrow> jv \<Rightarrow> world \<Rightarrow> outcome \<times> world" where
  "processItem e item w =
     (let city = trim (toString e (or_else item (Str [])))
      in if city = [] then
           (\<lparr>originalItem = item, processed = False, status = ''error'',
             error = Some (''Destino vazio/ inv'' @ [CHR 0xE1] @ ''lido''),
             processedAt = toISOString e (clock w), data = None\<rparr>, w)
         else
           (case makeTravelInfoRequest e city w of
              (Inr d, w1) \<Rightarrow>
                (\<lparr>originalItem = Str city, processed = True, status = ''success'',
                  error = None, processedAt = toISOString e (clock w1), data = Some d\<rparr>, w1)
            | (Inl err, w1) \<Rightarrow>
                (\<lparr>originalItem = Str city, processed = False, status = ''error'',
                  error = Some (explainFetchError (Some err)),
                  processedAt = toISOString e (clock w1), data = None\<rparr>, w1)))"

fun processItems :: "runtime \<Rightarrow> jv list \<Rightarrow> world \<Rightarrow> outcome list \<times> world" where
  "processItems e [] w = ([], w)"
| "processItems e (item # items) w =
     (case processItem e item w of (r, w1) \<Rightarrow>
      case processItems e items w1 of (rs, w2) \<Rightarrow> (r # rs, w2))"

section \<open>Notions used in the statements\<close>

text \<open>The error that \<^verbatim>\<open>fetchJSON\<close> builds for a response that is not ok.\<close>

definition http_error :: "runtime \<Rightarrow> request \<Rightarrow> nat \<Rightarrow> string \<Rightarrow> jserror" where
  "http_error e req st txt =
     Error (''HTTP '' @ decimal st @ '' em '' @ href e (target req)
            @ (if txt \<noteq> [] then '' - '' @ take 200 txt else []))"

text \<open>Between the worlds \<open>w\<close> and \<open>w'\<close> the log has only grown, and every request
  added to it goes to one of the given addresses.\<close>

definition only_to :: "string list \<Rightarrow> world \<Rightarrow> world \<Rightarrow> bool" where
  "only_to eps w w' =
     (take (length (requests w)) (requests w') = requests w \<and>
      list_all (\<lambda>q. endpoint (target q) \<in> set eps) (drop (length (requests w)) (requests w')))"

text \<open>Between the worlds \<open>w\<close> and \<open>w'\<close> the log has only grown, and no request
  added to it goes to any of the given addresses.\<close>

definition none_to :: "string list \<Rightarrow> world \<Rightarrow> world \<Rightarrow> bool" where
  "none_to eps w w' =
     (take (length (requests w)) (requests w') = requests w \<and>
      list_all (\<lambda>q. endpoint (target q) \<notin> set eps) (drop (length (requests w)) (requests w')))"

text \<open>A \<^verbatim>\<open>try\<close> block of \<^verbatim>\<open>geocodeCity\<close> gave no result: it threw, or it ended without
  returning.\<close>

definition no_result :: "jserror + geo option \<Rightarrow> bool" where
  "no_result r = (case r of Inl er \<Rightarrow> True | Inr None \<Rightarrow> True | Inr (Some g) \<Rightarrow> False)"

text \<open>The message of the error that \<^verbatim>\<open>makeTravelInfoRequest\<close> throws for a place that
  no provider resolves.\<close>

definition could_not_geocode :: "string \<Rightarrow> string" where
  "could_not_geocode city =
     ''N'' @ [CHR 0xE3] @ ''o foi poss'' @ [CHR 0xED] @ ''vel geocodificar ''
     @ [CHR 0x22] @ city @ [CHR 0x22]"

text \<open>The addresses of the geocoding providers.\<close>

definition geocoders :: "string list" where
  "geocoders = [endpoint open_meteo_search, endpoint nominatim_search, endpoint nominatim_reverse,
                endpoint maps_co_search]"

text \<open>The world in which the fourth branch of the aggregator runs, when the aggregator
  starts in \<open>w\<close>.\<close>

definition fx_start :: "runtime \<Rightarrow> geo \<Rightarrow> world \<Rightarrow> world" where
  "fx_start e g w =
     snd (getHolidays e (country_code g)
       (snd (getCountryInfo e (country_code g)
         (snd (getWeather e (latitude g) (longitude g) (timezone g) w)))))"

text \<open>The date of a holiday entry, when it is a string.\<close>

definition iso_date :: "jv \<Rightarrow> string" where
  "iso_date h = (case opt_dot h ''date'' of Str s \<Rightarrow> s | _ \<Rightarrow> [])"

text \<open>A field of the record that \<^verbatim>\<open>makeTravelInfoRequest\<close> returns; \<open>None\<close> when it throws.\<close>

definition field :: "(travel_info \<Rightarrow> 'a) \<Rightarrow> (jserror + travel_info) \<times> world \<Rightarrow> 'a option" where
  "field f r = (case fst r of Inl er \<Rightarrow> None | Inr b \<Rightarrow> Some (f b))"

text \<open>The number of requests in the log that went to an address.\<close>

definition count_to :: "string \<Rightarrow> world \<Rightarrow> nat" where
  "count_to ep w = length (filter (\<lambda>q. endpoint (target q) = ep) (requests w))"

section \<open>Test doubles\<close>

text \<open>
  A runtime over a given network and a given table of payloads: a body parses to the value
  the table gives for it and is malformed otherwise. The clock of the double stands at
  noon of 3 November 2026, its random numbers are all \<open>0\<close>, and no e-mail address is
  configured.
\<close>

definition node ::
  "(request list \<Rightarrow> request \<Rightarrow> nat \<times> fetch_result) \<Rightarrow> (string \<times> jv) list \<Rightarrow> runtime" where
  "node network table =
     \<lparr>net = network,
      abort_error = \<lparr>ename = ''AbortError'', message = ''This operation was aborted'',
                      cause_code = Some ''20'', cause_errno = None, cause_address = None,
                      cause_port = None, cause_syscall = None, cause_host = None\<rparr>,
      JSON_parse = map_of table,
      JSON_stringify = (\<lambda>v. []),
      href = (\<lambda>u. endpoint u @ (if search u = [] then []
                else ''?'' @ join ''&'' (map (\<lambda>kv. fst kv @ ''='' @ snd kv) (search u)))),
      numToString = (\<lambda>n. case map_of [(Fin 1, ''1''), (Fin 7, ''7''), (Fin (3872 / 100), ''38.72''),
                                        (Fin (- 914 / 100), ''-9.14'')] n of
                            Some s \<Rightarrow> s | None \<Rightarrow> ''NaN''),
      parseFloat = (\<lambda>v. case v of
                            Num n \<Rightarrow> n
                          | Str s \<Rightarrow> (case map_of [(''38.72'', Fin (3872 / 100)), (''-9.14'', Fin (- 914 / 100))] s of
                                       Some n \<Rightarrow> n | None \<Rightarrow> NaN)
                          | _ \<Rightarrow> NaN),
      toUpperCase = (\<lambda>s. if s = ''pt'' then ''PT'' else s),
      encodeURIComponent = (\<lambda>s. s),
      random250 = (\<lambda>n. 0),
      getFullYear = (\<lambda>t. 2026),
      toISOString = (\<lambda>t. ''2026-11-03T12:00:00.000Z''),
      NOMINATIM_EMAIL = Undefined\<rparr>"

definition w0 :: world where
  "w0 = \<lparr>requests = [], clock = 0, lastGeocodeAt = 0, draws = 0\<rparr>"

text \<open>The payloads of the providers for Lisbon, each with the value it parses to.\<close>

definition geocoding_json :: "string \<times> jv" where
  \<open>geocoding_json =
     (''{"results":[{"name":"Lisboa","country":"Portugal","country_code":"PT","latitude":38.72,"longitude":-9.14,"timezone":"Europe/Lisbon"}]}'',
      Obj [(''results'', Arr [Obj [(''name'', Str ''Lisboa''), (''country'', Str ''Portugal''),
             (''country_code'', Str ''PT''), (''latitude'', Num (Fin (3872 / 100))),
             (''longitude'', Num (Fin (- 914 / 100))), (''timezone'', Str ''Europe/Lisbon'')]])])\<close>

definition forecast_json :: "string \<times> jv" where
  \<open>forecast_json =
     (''{"current_weather":{"temperature":18},"daily":{"time":[]}}'',
      Obj [(''current_weather'', Obj [(''temperature'', Num (Fin 18))]),
           (''daily'', Obj [(''time'', Arr [])])])\<close>

definition country_json :: "string \<times> jv" where
  \<open>country_json =
     (''[{"name":{"official":"Portuguese Republic"},"region":"Europe","capital":["Lisbon"],"currencies":{"EUR":{"name":"Euro","symbol":"E"}}}]'',
      Arr [Obj [(''name'', Obj [(''official'', Str ''Portuguese Republic'')]),
                (''region'', Str ''Europe''), (''capital'', Arr [Str ''Lisbon'']),
                (''currencies'', Obj [(''EUR'', Obj [(''name'', Str ''Euro''), (''symbol'', Str ''E'')])])]])\<close>

definition holiday :: "string \<Rightarrow> jv" where
  "holiday d = Obj [(''date'', Str d)]"

definition holidays_json :: "string \<times> jv" where
  \<open>holidays_json =
     (''[{"date":"2026-01-01"},{"date":"2026-04-03"},{"date":"2026-04-25"},{"date":"2026-05-01"},{"date":"2026-06-10"},{"date":"2026-10-05"},{"date":"2026-12-08"},{"date":"2026-12-25"}]'',
      Arr [holiday ''2026-01-01'', holiday ''2026-04-03'', holiday ''2026-04-25'',
           holiday ''2026-05-01'', holiday ''2026-06-10'', holiday ''2026-10-05'',
           holiday ''2026-12-08'', holiday ''2026-12-25''])\<close>

definition rates_json :: "string \<times> jv" where
  \<open>rates_json = (''{"rates":{"BRL":6}}'', Obj [(''rates'', Obj [(''BRL'', Num (Fin 6))])])\<close>

definition payloads :: "(string \<times> jv) list" where
  "payloads = [geocoding_json, forecast_json, country_json, holidays_json, rates_json]"

definition reply :: "string \<times> jv \<Rightarrow> nat \<times> fetch_result" where
  "reply p = (20, Response 200 (Inr (fst p)))"

text \<open>Every provider is up and answers in 20 ms; any other address is not found.\<close>

definition providers :: "request list \<Rightarrow> request \<Rightarrow> nat \<times> fetch_result" where
  "providers h r =
     (case map_of [(''https://geocoding-api.open-meteo.com/v1/search'', reply geocoding_json),
                   (''https://api.open-meteo.com/v1/forecast'', reply forecast_json),
                   (''https://restcountries.com/v3.1/alpha/PT'', reply country_json),
                   (''https://date.nager.at/api/v3/PublicHolidays/2026/PT'', reply holidays_json),
                   (''https://api.exchangerate.host/latest'', reply rates_json)]
             (endpoint (target r)) of
        Some x \<Rightarrow> x
      | None \<Rightarrow> (20, Response 404 (Inr ''Not Found'')))"

text \<open>The same providers, but the country service answers 503 except to every sixth
  request it receives. The second and the fourth branch of the aggregator send it the same
  request; whether they take turns, the second before the fourth, or run one after the
  other, the five attempts of the second branch all fail and an attempt of the fourth
  succeeds.\<close>

definition flaky :: "request list \<Rightarrow> request \<Rightarrow> nat \<times> fetch_result" where
  "flaky h r =
     (if endpoint (target r) = ''https://restcountries.com/v3.1/alpha/PT''
         \<and> length (filter (\<lambda>q. endpoint (target q) = ''https://restcountries.com/v3.1/alpha/PT'') h) mod 6 \<noteq> 5
      then (20, Response 503 (Inr []))
      else providers h r)"

text \<open>The first geocoding provider is down (404 to every request) and the second one
  knows Lisbon.\<close>

definition search_json :: "string \<times> jv" where
  \<open>search_json =
     (''[{"lat":"38.72","lon":"-9.14","display_name":"Lisboa, Portugal","address":{"country":"Portugal","country_code":"pt"}}]'',
      Arr [Obj [(''lat'', Str ''38.72''), (''lon'', Str ''-9.14''),
                (''display_name'', Str ''Lisboa, Portugal''),
                (''address'', Obj [(''country'', Str ''Portugal''), (''country_code'', Str ''pt'')])]])\<close>

definition fallback :: "request list \<Rightarrow> request \<Rightarrow> nat \<times> fetch_result" where
  "fallback h r =
     (if endpoint (target r) = ''https://nominatim.openstreetmap.org/search'' then reply search_json
      else (20, Response 404 (Inr ''Not Found'')))"

text \<open>What the first provider, and what the second provider, resolves Lisbon to.\<close>

definition lisboa :: geo where
  "lisboa = \<lparr>name = Str ''Lisboa'', country = Str ''Portugal'', country_code = Str ''PT'',
              latitude = Num (Fin (3872 / 100)), longitude = Num (Fin (- 914 / 100)),
              timezone = Str ''Europe/Lisbon''\<rparr>"

definition lisboa_nominatim :: geo where
  "lisboa_nominatim = \<lparr>name = Str ''Lisboa'', country = Str ''Portugal'', country_code = Str ''PT'',
              latitude = Num (Fin (3872 / 100)), longitude = Num (Fin (- 914 / 100)),
              timezone = Null\<rparr>"

text \<open>What the enrichment branches make of the payloads above.\<close>

definition forecast :: weather where
  "forecast = \<lparr>current = Obj [(''temperature'', Num (Fin 18))], daily = Obj [(''time'', Arr [])]\<rparr>"

definition portugal :: country_info where
  "portugal = \<lparr>nameOfficial = Str ''Portuguese Republic'', region = Str ''Europe'',
                subregion = Undefined, capital = Str ''Lisbon'',
                currencies = [\<lparr>code = ''EUR'', cname = Str ''Euro'', symbol = Str ''E''\<rparr>],
                languages = [], callingCode = Null\<rparr>"

definition holidays_2026 :: holidays where
  "holidays_2026 =
     \<lparr>year = 2026,
      upcoming = [holiday ''2026-12-08'', holiday ''2026-12-25''],
      past = [holiday ''2026-04-03'', holiday ''2026-04-25'', holiday ''2026-05-01'',
              holiday ''2026-06-10'', holiday ''2026-10-05'']\<rparr>"

text \<open>The same providers, but the weather service answers 404 to every request.\<close>

definition no_forecast :: "request list \<Rightarrow> request \<Rightarrow> nat \<times> fetch_result" where
  "no_forecast h r =
     (if endpoint (target r) = ''https://api.open-meteo.com/v1/forecast''
      then (20, Response 404 (Inr ''Not Found''))
      else providers h r)"

text \<open>A server that answers every request with 404.\<close>

definition always404 :: "request list \<Rightarrow> request \<Rightarrow> nat \<times> fetch_result" where
  "always404 h r = (20, Response 404 (Inr ''Not Found''))"

section \<open>Resilient fetch: properties\<close>

lemma catch_block_eq:
  "catch_block opts attempt err =
     (if attempt = retries opts then Inl (Error (explainFetchError (Some err)))
      else Inr (Fallthrough err))"
  by (simp add: catch_block_def Let_def)

lemma explainFetchError_Error:
  "msg \<noteq> [] \<Longrightarrow> explainFetchError (Some (Error msg)) = msg"
  by (simp add: explainFetchError_def Error_def)

lemma fetch_frame:
  "fetch e req tmo w = (res, w1) \<Longrightarrow>
     requests w1 = requests w @ [req] \<and> lastGeocodeAt w1 = lastGeocodeAt w"
  by (auto simp: fetch_def sleep_def Let_def split: prod.splits if_splits)

lemma attempt_once_frame:
  "attempt_once e req opts attempt w = (c, w1) \<Longrightarrow>
     requests w1 = requests w @ [req] \<and> lastGeocodeAt w1 = lastGeocodeAt w"
  by (auto simp: attempt_once_def split: prod.splits dest: fetch_frame)

lemma backoff_frame:
  "requests (backoff e opts attempt w) = requests w"
  "lastGeocodeAt (backoff e opts attempt w) = lastGeocodeAt w"
  by (simp_all add: backoff_def sleep_def Let_def)

lemma fetchJSON_loop_frame:
  "fetchJSON_loop e req opts attempt lastErr w = (r, w') \<Longrightarrow>
     lastGeocodeAt w' = lastGeocodeAt w \<and>
     (\<exists>k. requests w' = requests w @ replicate k req)"
proof (induction e req opts attempt lastErr w arbitrary: r w' rule: fetchJSON_loop.induct)
  case (1 e req opts attempt lastErr w)
  show ?case
  proof (cases "attempt \<le> retries opts")
    case False
    with "1.prems" show ?thesis
      by (simp add: fetchJSON_loop.simps)
  next
    case True
    obtain c w1 where a: "attempt_once e req opts attempt w = (c, w1)"
      by (cases "attempt_once e req opts attempt w")
    note fr = attempt_once_frame [OF a]
    show ?thesis
    proof (cases c)
      case (Inl er)
      with "1.prems" True a have "w' = w1"
        by (simp add: fetchJSON_loop.simps)
      with fr show ?thesis
        by (intro conjI exI [of _ 1]) auto
    next
      case (Inr co)
      show ?thesis
      proof (cases co)
        case (Return v)
        with "1.prems" True a Inr have "w' = w1"
          by (simp add: fetchJSON_loop.simps)
        with fr show ?thesis
          by (intro conjI exI [of _ 1]) auto
      next
        case (Fallthrough le)
        have rec: "fetchJSON_loop e req opts (attempt + 1) (Some le) (backoff e opts attempt w1) = (r, w')"
          using "1.prems" True a Inr Fallthrough
          by (simp add: fetchJSON_loop.simps [of e req opts attempt])
        from "1.IH" [OF True a [symmetric] _ _ rec] Inr Fallthrough
        obtain k where "lastGeocodeAt w' = lastGeocodeAt w1" "requests w' = requests w1 @ replicate k req"
          by (auto simp: backoff_frame)
        with fr show ?thesis
          by (intro conjI exI [of _ "Suc k"]) (auto simp: replicate_append_same)
      qed
    qed
  qed
qed

lemma withQuery_endpoint: "endpoint (withQuery e u ps) = endpoint u"
proof -
  have "endpoint (foldl (\<lambda>u kv. if snd kv = Undefined \<or> snd kv = Null then u
                          else u\<lparr>search := searchParams_set (fst kv) (toString e (snd kv)) (search u)\<rparr>)
             u ps) = endpoint u"
    by (induction ps arbitrary: u) simp_all
  then show ?thesis
    by (simp add: withQuery_def)
qed

lemma mk_request_endpoint:
  "endpoint (target (mk_request e (withQuery e u ps) opts)) = endpoint u"
  by (simp add: mk_request_def withQuery_endpoint)

lemma only_to_refl: "only_to eps w w"
  by (simp add: only_to_def)

lemma only_to_append:
  "requests w' = requests w @ qs \<Longrightarrow> \<forall>q \<in> set qs. endpoint (target q) \<in> set eps \<Longrightarrow> only_to eps w w'"
  by (simp add: only_to_def list_all_iff)

lemma only_to_D:
  "only_to eps w w' \<Longrightarrow> \<exists>qs. requests w' = requests w @ qs \<and> (\<forall>q \<in> set qs. endpoint (target q) \<in> set eps)"
  unfolding only_to_def list_all_iff
  by (metis append_take_drop_id)

lemma only_to_trans:
  assumes "only_to eps w w'" and "only_to eps' w' w''"
    and "set eps \<subseteq> set fs" and "set eps' \<subseteq> set fs"
  shows "only_to fs w w''"
proof -
  from only_to_D [OF assms(1)] obtain qs where
    1: "requests w' = requests w @ qs" "\<forall>q \<in> set qs. endpoint (target q) \<in> set eps" by blast
  from only_to_D [OF assms(2)] obtain rs where
    2: "requests w'' = requests w' @ rs" "\<forall>q \<in> set rs. endpoint (target q) \<in> set eps'" by blast
  from 1 2 assms(3,4) show ?thesis
    by (intro only_to_append [of _ _ "qs @ rs"]) auto
qed

lemma only_to_mono: "only_to eps w w' \<Longrightarrow> set eps \<subseteq> set fs \<Longrightarrow> only_to fs w w'"
  unfolding only_to_def list_all_iff by auto

lemma none_to_from_only_to:
  "only_to eps w w' \<Longrightarrow> set eps \<inter> set fs = {} \<Longrightarrow> none_to fs w w'"
  unfolding only_to_def none_to_def list_all_iff by auto

lemma fetchJSON_frame:
  assumes "fetchJSON e u opts w = (r, w')"
  shows "lastGeocodeAt w' = lastGeocodeAt w" and "only_to [endpoint u] w w'"
proof -
  let ?req = "mk_request e (withQuery e u (params opts)) opts"
  from assms have "fetchJSON_loop e ?req opts 0 None w = (r, w')"
    by (simp add: fetchJSON_def)
  from fetchJSON_loop_frame [OF this] obtain k where
    k: "lastGeocodeAt w' = lastGeocodeAt w" "requests w' = requests w @ replicate k ?req"
    by blast
  from k show "lastGeocodeAt w' = lastGeocodeAt w" by simp
  have "endpoint (target ?req) = endpoint u"
    by (simp add: mk_request_def withQuery_endpoint)
  with k(2) show "only_to [endpoint u] w w'"
    by (intro only_to_append [of _ _ "replicate k ?req"]) auto
qed

lemma attempt_once_not_ok:
  assumes "net e (requests w) req = (ms, Response st (Inr txt))"
    and "ms < timeoutMs opts" and "\<not> ok st"
  shows "fst (attempt_once e req opts attempt w) =
           (if attempt = retries opts then Inl (http_error e req st txt)
            else if retryable st
              then Inr (Fallthrough (Error (''HTTP '' @ decimal st @ '' (tentativa ''
                      @ decimal (attempt + 1) @ ''/'' @ decimal (retries opts + 1) @ '')'')))
              else Inr (Fallthrough (http_error e req st txt)))"
    and "snd (attempt_once e req opts attempt w) = sleep ms (w\<lparr>requests := requests w @ [req]\<rparr>)"
  using assms
  by (simp_all add: attempt_once_def fetch_def try_block_def catch_block_eq http_error_def
      explainFetchError_Error Let_def)

lemma status_fails:
  "(\<And>k. attempt + k \<le> retries opts \<Longrightarrow>
        net e (requests w @ replicate k req) req = (ms, Response st (Inr txt))) \<Longrightarrow>
   ms < timeoutMs opts \<Longrightarrow> \<not> ok st \<Longrightarrow> attempt \<le> retries opts \<Longrightarrow>
     fst (fetchJSON_loop e req opts attempt lastErr w) = Inl (http_error e req st txt) \<and>
     requests (snd (fetchJSON_loop e req opts attempt lastErr w))
       = requests w @ replicate (retries opts + 1 - attempt) req"
proof (induction "retries opts - attempt" arbitrary: attempt lastErr w)
  case 0
  then have last: "attempt = retries opts" by simp
  from "0.prems"(1) [of 0] last have "net e (requests w) req = (ms, Response st (Inr txt))" by simp
  note a = attempt_once_not_ok [OF this "0.prems"(2,3), of attempt]
  obtain c v where cv: "attempt_once e req opts (retries opts) w = (c, v)"
    by (cases "attempt_once e req opts (retries opts) w")
  with a last show ?case
    by (simp add: fetchJSON_loop.simps [of e req opts "retries opts"] sleep_def)
next
  case (Suc n)
  then have more: "attempt \<noteq> retries opts" "attempt + 1 \<le> retries opts" "n = retries opts - (attempt + 1)"
    by simp_all
  from Suc.prems(1) [of 0] more have "net e (requests w) req = (ms, Response st (Inr txt))" by simp
  note a = attempt_once_not_ok [OF this Suc.prems(2,3), of attempt]
  obtain c v where cv: "attempt_once e req opts attempt w = (c, v)"
    by (cases "attempt_once e req opts attempt w")
  with a more obtain le where c: "c = Inr (Fallthrough le)" and v: "v = sleep ms (w\<lparr>requests := requests w @ [req]\<rparr>)"
    by (cases "retryable st") simp_all
  let ?w1 = "backoff e opts attempt v"
  have step: "fetchJSON_loop e req opts attempt lastErr w =
          fetchJSON_loop e req opts (attempt + 1) (Some le) ?w1"
    using cv c more Suc.prems by (simp add: fetchJSON_loop.simps [of e req opts attempt])
  have w1: "requests ?w1 = requests w @ [req]"
    by (simp add: v backoff_def sleep_def Let_def)
  have nxt: "net e (requests ?w1 @ replicate k req) req = (ms, Response st (Inr txt))"
    if "attempt + 1 + k \<le> retries opts" for k
    using Suc.prems(1) [of "Suc k"] that by (simp add: w1)
  from Suc.hyps(1) [OF more(3) nxt Suc.prems(2,3) more(2), of "Some le"] more Suc.prems
  show ?case
    by (simp add: step w1 Suc_diff_le replicate_append_same flip: replicate_Suc)
qed

lemma non_retryable_status_is_retried:
  assumes "\<forall>h. net e h req = (ms, Response st (Inr txt))"
    and "ms < timeoutMs opts" and "\<not> ok st" and "\<not> retryable st"
  shows "attempt \<le> retries opts \<Longrightarrow>
         fst (fetchJSON_loop e req opts attempt lastErr w) = Inl (http_error e req st txt) \<and>
         requests (snd (fetchJSON_loop e req opts attempt lastErr w))
           = requests w @ replicate (retries opts + 1 - attempt) req"
  using assms by (intro status_fails) simp_all

lemma fetchJSON_first_ok:
  assumes "net e (requests w) (mk_request e (withQuery e u (params opts)) opts) = (ms, Response st (Inr txt))"
    and "ms < timeoutMs opts" and "ok st" and "JSON_parse e txt = Some v"
  shows "fetchJSON e u opts w =
           (Inr v, sleep ms (w\<lparr>requests := requests w @ [mk_request e (withQuery e u (params opts)) opts]\<rparr>))"
  using assms
  by (simp add: fetchJSON_def fetchJSON_loop.simps [of _ _ _ 0] attempt_once_def fetch_def try_block_def)

lemma not_found_fails:
  assumes "\<forall>h q. net e h q = (20, Response 404 (Inr ''Not Found''))" and "20 < timeoutMs opts"
  shows "\<exists>er. fst (fetchJSON e u opts w) = Inl er"
proof -
  have "\<not> ok 404" "\<not> retryable 404"
    by (simp_all add: ok_def retryable_def)
  with non_retryable_status_is_retried [of e _ 20 404 "''Not Found''" opts 0 None w] assms
  show ?thesis
    by (auto simp: fetchJSON_def)
qed

text \<open>
  Claim C3. The claim says that a status that is neither 2xx nor one of 408, 425, 429,
  500, 502, 503, 504 ends \<^verbatim>\<open>fetchJSON\<close> after exactly one attempt. The source throws for
  such a status inside its \<^verbatim>\<open>try\<close> block, and the \<^verbatim>\<open>catch\<close> block of the same statement
  receives what is thrown and retries unless the attempt is the last one
  (\<open>non_retryable_status_is_retried\<close>). Against a server that answers 404 to every
  request, the default options give five requests; the error thrown at the end does carry
  the status and the body.
\<close>

theorem non_retryable_404_is_attempted_five_times:
  "fst (fetchJSON (node always404 []) \<lparr>endpoint = ''https://x.test/a'', search = []\<rparr> defaults w0)
     = Inl (Error ''HTTP 404 em https://x.test/a - Not Found'') \<and>
   length (requests (snd (fetchJSON (node always404 []) \<lparr>endpoint = ''https://x.test/a'', search = []\<rparr>
                            defaults w0))) = 5"
proof -
  let ?e = "node always404 []"
  let ?req = "mk_request ?e (withQuery ?e \<lparr>endpoint = ''https://x.test/a'', search = []\<rparr> (params defaults)) defaults"
  have 1: "\<forall>h. net ?e h ?req = (20, Response 404 (Inr ''Not Found''))"
    by (simp add: node_def always404_def)
  have 2: "(20::nat) < timeoutMs defaults" "\<not> ok 404" "\<not> retryable 404" "0 \<le> retries defaults"
    by (simp_all add: defaults_def ok_def retryable_def)
  have 3: "http_error ?e ?req 404 ''Not Found'' = Error ''HTTP 404 em https://x.test/a - Not Found''"
    by (simp add: http_error_def decimal.simps node_def mk_request_def withQuery_def defaults_def)
  from non_retryable_status_is_retried [OF 1 2, of None w0] 3
  show ?thesis
    by (simp add: fetchJSON_def w0_def defaults_def)
qed

section \<open>Geocode resolver: properties\<close>

lemma waitGeocodeSlot_requests: "requests (waitGeocodeSlot w) = requests w"
  by (simp add: waitGeocodeSlot_def sleep_def Let_def)

lemma only_to_wait: "only_to eps (waitGeocodeSlot w) w' = only_to eps w w'"
  by (simp add: only_to_def waitGeocodeSlot_requests)

lemma waitGeocodeSlot_advances:
  "lastGeocodeAt w + GEOCODE_MIN_INTERVAL_MS \<le> lastGeocodeAt (waitGeocodeSlot w)"
  by (auto simp: waitGeocodeSlot_def sleep_def Let_def max_def)

lemma openMeteo_frame:
  assumes "openMeteo e city w = (r, w')"
  shows "lastGeocodeAt w' = lastGeocodeAt w" and "only_to [endpoint open_meteo_search] w w'"
proof -
  obtain r0 w1 where f: "fetchJSON e open_meteo_search (open_meteo_opts city) w = (r0, w1)"
    by (cases "fetchJSON e open_meteo_search (open_meteo_opts city) w")
  with assms have "w' = w1"
    by (auto simp: openMeteo_def split: sum.splits if_splits)
  with fetchJSON_frame [OF f]
  show "lastGeocodeAt w' = lastGeocodeAt w" and "only_to [endpoint open_meteo_search] w w'"
    by simp_all
qed

lemma reverse_frame:
  assumes "reverse e lat lon cc w = (c, w')"
  shows "only_to [endpoint nominatim_reverse] w w'"
proof -
  let ?f = "fetchJSON e nominatim_reverse
             (defaults\<lparr>params := [(''lat'', Num lat), (''lon'', Num lon), (''format'', Str ''jsonv2''),
                                   (''addressdetails'', Num (Fin 1)), (''accept-language'', Str ''pt''),
                                   (''email'', NOMINATIM_EMAIL e)],
                        timeoutMs := 12000,
                        headers := [(''Accept-Language'', ''pt'')]\<rparr>) (waitGeocodeSlot w)"
  obtain r0 w1 where f: "?f = (r0, w1)"
    by (cases ?f)
  with assms have "w' = w1"
    by (auto simp: reverse_def split: sum.splits)
  with fetchJSON_frame(2) [OF f] show ?thesis
    by (simp add: only_to_wait)
qed

lemma searchResult_frame:
  assumes "searchResult e city dat w = (r, w')"
  shows "only_to [endpoint nominatim_reverse] w w'"
  using assms
  by (auto simp: searchResult_def only_to_refl split: jv.splits list.splits sum.splits prod.splits if_splits
      dest: reverse_frame)

lemma nominatim_frame:
  assumes "nominatim e city w = (r, w')"
  shows "only_to [endpoint nominatim_search, endpoint nominatim_reverse] w w'"
  using assms
  by (auto simp: nominatim_def Let_def split: prod.splits sum.splits
      dest!: fetchJSON_frame(2) searchResult_frame
      intro: only_to_mono only_to_trans [where eps = "[endpoint nominatim_search]" and eps' = "[endpoint nominatim_reverse]"])

lemma mapsCo_frame:
  assumes "mapsCo e city w = (r, w')"
  shows "only_to [endpoint maps_co_search, endpoint nominatim_reverse] w w'"
  using assms
  by (auto simp: mapsCo_def Let_def split: prod.splits sum.splits
      dest!: fetchJSON_frame(2) searchResult_frame
      intro: only_to_mono only_to_trans [where eps = "[endpoint maps_co_search]" and eps' = "[endpoint nominatim_reverse]"])

lemma dot_not_nullish: "\<not> nullish r \<Longrightarrow> dot r k = Inr (opt_dot r k)"
  by (cases r) (simp_all add: nullish_def opt_dot_def)

lemma returned_None_iff: "returned r = None \<longleftrightarrow> r = Inr None \<or> (\<exists>er. r = Inl er)"
  by (cases r) (auto simp: returned_def)

lemma no_result_iff: "no_result r \<longleftrightarrow> returned r = None"
  by (simp add: no_result_def returned_def split: sum.splits option.splits)

lemma openMeteo_results:
  assumes "fetchJSON e open_meteo_search (open_meteo_opts city) w = (Inr d, w1)"
    and "dot d ''results'' = Inr (Arr (r # rs))" and "\<not> nullish r"
  shows "openMeteo e city w =
           (Inr (Some \<lparr>name = opt_dot r ''name'', country = opt_dot r ''country'',
                       country_code = opt_dot r ''country_code'', latitude = opt_dot r ''latitude'',
                       longitude = opt_dot r ''longitude'', timezone = opt_dot r ''timezone''\<rparr>), w1)"
proof -
  from assms(2) have "opt_dot d ''results'' = Arr (r # rs)"
    by (simp add: opt_dot_def)
  then have len: "truthy (opt_dot (opt_dot d ''results'') ''length'')"
    by (simp add: opt_dot_def)
  show ?thesis
    by (simp add: openMeteo_def assms(1,2) len bind_def dot_not_nullish [OF assms(3)])
qed

lemma geocodeCity_first:
  assumes "returned (fst (openMeteo e city w)) = Some g"
  shows "geocodeCity e city w = (Some g, snd (openMeteo e city w))"
  using assms by (simp add: geocodeCity_def case_prod_beta)

lemma geocodeCity_second:
  assumes "returned (fst (openMeteo e city w)) = None"
    and "returned (fst (nominatim e city (waitGeocodeSlot (snd (openMeteo e city w))))) = Some g"
  shows "geocodeCity e city w = (Some g, snd (nominatim e city (waitGeocodeSlot (snd (openMeteo e city w)))))"
  using assms by (simp add: geocodeCity_def case_prod_beta)

lemma geocodeCity_None_iff:
  "fst (geocodeCity e city w) = None \<longleftrightarrow>
     returned (fst (openMeteo e city w)) = None \<and>
     returned (fst (nominatim e city (waitGeocodeSlot (snd (openMeteo e city w))))) = None \<and>
     returned (fst (mapsCo e city (waitGeocodeSlot (snd (nominatim e city
        (waitGeocodeSlot (snd (openMeteo e city w)))))))) = None"
  by (simp add: geocodeCity_def case_prod_beta split: option.splits)

lemma swallowed:
  "\<exists>er. fst p = Inl er \<Longrightarrow>
     returned (fst (case p of (Inl er, w1) \<Rightarrow> (Inl er, w1) | (Inr d, w1) \<Rightarrow> f d w1)) = None"
  by (cases p) (auto simp: returned_def split: sum.splits)

lemma not_found_geocodeCity:
  assumes "\<forall>h q. net e h q = (20, Response 404 (Inr ''Not Found''))"
  shows "returned (fst (openMeteo e city w)) = None"
    and "returned (fst (nominatim e city w)) = None"
    and "returned (fst (mapsCo e city w)) = None"
proof -
  note nf = not_found_fails [OF assms]
  show "returned (fst (openMeteo e city w)) = None"
    unfolding openMeteo_def
    by (rule swallowed, rule nf) (simp add: open_meteo_opts_def)
  show "returned (fst (nominatim e city w)) = None"
    unfolding nominatim_def Let_def
    by (rule swallowed, rule nf) simp
  show "returned (fst (mapsCo e city w)) = None"
    unfolding mapsCo_def
    by (rule swallowed, rule nf) simp
qed

lemma not_found_geocodeCity_None:
  assumes "\<forall>h q. net e h q = (20, Response 404 (Inr ''Not Found''))"
  shows "fst (geocodeCity e city w) = None"
  by (simp add: geocodeCity_None_iff not_found_geocodeCity [OF assms])

lemma providers_geocoding:
  "fetchJSON (node providers payloads) open_meteo_search (open_meteo_opts ''Lisboa'') w =
     (Inr (snd geocoding_json),
      sleep 20 (w\<lparr>requests := requests w @
         [mk_request (node providers payloads)
            (withQuery (node providers payloads) open_meteo_search (params (open_meteo_opts ''Lisboa'')))
            (open_meteo_opts ''Lisboa'')]\<rparr>))"
proof (rule fetchJSON_first_ok)
  show "net (node providers payloads) (requests w)
          (mk_request (node providers payloads)
            (withQuery (node providers payloads) open_meteo_search (params (open_meteo_opts ''Lisboa'')))
            (open_meteo_opts ''Lisboa'')) = (20, Response 200 (Inr (fst geocoding_json)))"
    by (simp add: node_def providers_def mk_request_endpoint open_meteo_search_def reply_def)
  show "20 < timeoutMs (open_meteo_opts ''Lisboa'')"
    by (simp add: open_meteo_opts_def)
  show "ok 200"
    by (simp add: ok_def)
  show "JSON_parse (node providers payloads) (fst geocoding_json) = Some (snd geocoding_json)"
    by (simp add: node_def payloads_def)
qed

lemma fallback_openMeteo:
  "returned (fst (openMeteo (node fallback [search_json]) city w)) = None"
proof -
  let ?e = "node fallback [search_json]"
  let ?req = "mk_request ?e (withQuery ?e open_meteo_search (params (open_meteo_opts city))) (open_meteo_opts city)"
  have "\<forall>h. net ?e h ?req = (20, Response 404 (Inr ''Not Found''))"
    by (simp add: node_def fallback_def mk_request_endpoint open_meteo_search_def)
  moreover have "20 < timeoutMs (open_meteo_opts city)" "\<not> ok 404" "\<not> retryable 404"
    by (simp_all add: open_meteo_opts_def ok_def retryable_def)
  ultimately have "fst (fetchJSON ?e open_meteo_search (open_meteo_opts city) w) = Inl (http_error ?e ?req 404 ''Not Found'')"
    using non_retryable_status_is_retried [of ?e ?req 20 404 "''Not Found''" "open_meteo_opts city" 0 None w]
    by (simp add: fetchJSON_def)
  then show ?thesis
    unfolding openMeteo_def by (intro swallowed) blast
qed

lemma fallback_nominatim:
  "fst (nominatim (node fallback [search_json]) ''Lisboa'' w) = Inr (Some lisboa_nominatim)"
proof -
  let ?e = "node fallback [search_json]"
  let ?opts = "defaults\<lparr>params := [(''q'', Str ''Lisboa''), (''format'', Str ''jsonv2''),
                  (''addressdetails'', Num (Fin 1)), (''limit'', Num (Fin 1)), (''accept-language'', Str ''pt'')],
                timeoutMs := 15000, headers := [(''Accept-Language'', ''pt'')]\<rparr>"
  let ?req = "mk_request ?e (withQuery ?e nominatim_search (params ?opts)) ?opts"
  have f: "fetchJSON ?e nominatim_search ?opts w =
          (Inr (snd search_json), sleep 20 (w\<lparr>requests := requests w @ [?req]\<rparr>))"
  proof (rule fetchJSON_first_ok)
    show "net ?e (requests w) ?req = (20, Response 200 (Inr (fst search_json)))"
      by (simp add: node_def fallback_def mk_request_endpoint nominatim_search_def reply_def)
    show "20 < timeoutMs ?opts" by simp
    show "ok 200" by (simp add: ok_def)
    show "JSON_parse ?e (fst search_json) = Some (snd search_json)"
      by (simp add: node_def)
  qed
  have email: "NOMINATIM_EMAIL ?e = Undefined"
    by (simp add: node_def)
  have sr: "fst (searchResult ?e ''Lisboa'' (snd search_json) v) = Inr (Some lisboa_nominatim)" for v
    by (simp add: searchResult_def search_json_def bind_def upper_def or_else_def opt_dot_def
        isFinite_def split0_def nullish_def lisboa_nominatim_def node_def)
  show ?thesis
    by (simp add: nominatim_def email f sr Let_def)
qed

text \<open>
  Claim C4. When the first provider answers with a result list whose first entry is a
  result (an array with an entry that is not \<^verbatim>\<open>null\<close>), \<^verbatim>\<open>geocodeCity\<close> returns that
  entry's fields; the rate gate's timestamp is as before (every acquisition moves it
  forward by the minimum interval at least, \<open>waitGeocodeSlot_advances\<close>) and no request
  has gone to the second provider, its reverse lookup, or the third provider. The same holds whenever the
  first \<^verbatim>\<open>try\<close> block returns. When the first block gives nothing and the second returns,
  that result is returned and no request has gone to the third provider.
\<close>

theorem first_result_wins:
  "(fetchJSON e open_meteo_search (open_meteo_opts city) w = (Inr d, w1)
      \<and> dot d ''results'' = Inr (Arr (r # rs)) \<and> \<not> nullish r
    \<longrightarrow> geocodeCity e city w =
          (Some \<lparr>name = opt_dot r ''name'', country = opt_dot r ''country'',
                  country_code = opt_dot r ''country_code'', latitude = opt_dot r ''latitude'',
                  longitude = opt_dot r ''longitude'', timezone = opt_dot r ''timezone''\<rparr>, w1)
        \<and> lastGeocodeAt w1 = lastGeocodeAt w
        \<and> none_to [endpoint nominatim_search, endpoint nominatim_reverse, endpoint maps_co_search] w w1)
   \<and> (returned (fst (openMeteo e city w)) = Some g
    \<longrightarrow> geocodeCity e city w = (Some g, snd (openMeteo e city w))
        \<and> lastGeocodeAt (snd (openMeteo e city w)) = lastGeocodeAt w
        \<and> none_to [endpoint nominatim_search, endpoint nominatim_reverse, endpoint maps_co_search]
             w (snd (openMeteo e city w)))
   \<and> (returned (fst (openMeteo e city w)) = None
      \<and> returned (fst (nominatim e city (waitGeocodeSlot (snd (openMeteo e city w))))) = Some g'
    \<longrightarrow> geocodeCity e city w = (Some g', snd (nominatim e city (waitGeocodeSlot (snd (openMeteo e city w)))))
        \<and> none_to [endpoint maps_co_search] w (snd (nominatim e city (waitGeocodeSlot (snd (openMeteo e city w))))))"
proof (intro conjI impI)
  let ?later = "[endpoint nominatim_search, endpoint nominatim_reverse, endpoint maps_co_search]"
  have disj: "set [endpoint open_meteo_search] \<inter> set ?later = {}"
    by (simp add: open_meteo_search_def nominatim_search_def nominatim_reverse_def maps_co_search_def)
  obtain ra wa where a: "openMeteo e city w = (ra, wa)"
    by (cases "openMeteo e city w")
  note fa = openMeteo_frame [OF a]
  {
    assume h: "fetchJSON e open_meteo_search (open_meteo_opts city) w = (Inr d, w1)
      \<and> dot d ''results'' = Inr (Arr (r # rs)) \<and> \<not> nullish r"
    then have om: "openMeteo e city w =
           (Inr (Some \<lparr>name = opt_dot r ''name'', country = opt_dot r ''country'',
                       country_code = opt_dot r ''country_code'', latitude = opt_dot r ''latitude'',
                       longitude = opt_dot r ''longitude'', timezone = opt_dot r ''timezone''\<rparr>), w1)"
      using openMeteo_results [of e city w d w1 r rs] by simp
    with a have "wa = w1" by simp
    from om show "geocodeCity e city w =
          (Some \<lparr>name = opt_dot r ''name'', country = opt_dot r ''country'',
                  country_code = opt_dot r ''country_code'', latitude = opt_dot r ''latitude'',
                  longitude = opt_dot r ''longitude'', timezone = opt_dot r ''timezone''\<rparr>, w1)"
      using geocodeCity_first [of e city w] by (simp add: returned_def)
    from fa \<open>wa = w1\<close> show "lastGeocodeAt w1 = lastGeocodeAt w" by simp
    from fa \<open>wa = w1\<close> disj show "none_to ?later w w1"
      by (auto intro: none_to_from_only_to)
  }
  {
    assume h: "returned (fst (openMeteo e city w)) = Some g"
    then show "geocodeCity e city w = (Some g, snd (openMeteo e city w))"
      by (rule geocodeCity_first)
    from fa a show "lastGeocodeAt (snd (openMeteo e city w)) = lastGeocodeAt w" by simp
    from fa a disj show "none_to ?later w (snd (openMeteo e city w))"
      by (auto intro: none_to_from_only_to)
  }
  {
    assume h: "returned (fst (openMeteo e city w)) = None
      \<and> returned (fst (nominatim e city (waitGeocodeSlot (snd (openMeteo e city w))))) = Some g'"
    then show "geocodeCity e city w = (Some g', snd (nominatim e city (waitGeocodeSlot (snd (openMeteo e city w)))))"
      by (intro geocodeCity_second) simp_all
    obtain rb wb where b: "nominatim e city (waitGeocodeSlot wa) = (rb, wb)"
      by (cases "nominatim e city (waitGeocodeSlot wa)")
    from nominatim_frame [OF b] have "only_to [endpoint nominatim_search, endpoint nominatim_reverse] wa wb"
      by (simp add: only_to_wait)
    with fa(2) have "only_to [endpoint open_meteo_search, endpoint nominatim_search, endpoint nominatim_reverse] w wb"
      by (rule only_to_trans) auto
    moreover have "set [endpoint open_meteo_search, endpoint nominatim_search, endpoint nominatim_reverse]
        \<inter> set [endpoint maps_co_search] = {}"
      by (simp add: open_meteo_search_def nominatim_search_def nominatim_reverse_def maps_co_search_def)
    ultimately show "none_to [endpoint maps_co_search] w (snd (nominatim e city (waitGeocodeSlot (snd (openMeteo e city w)))))"
      using a b by (auto intro: none_to_from_only_to)
  }
qed

theorem first_result_wins_witness:
  "fst (geocodeCity (node providers payloads) ''Lisboa'' w0) = Some lisboa \<and>
   lastGeocodeAt (snd (geocodeCity (node providers payloads) ''Lisboa'' w0)) = lastGeocodeAt w0 \<and>
   none_to [endpoint nominatim_search, endpoint nominatim_reverse, endpoint maps_co_search]
     w0 (snd (geocodeCity (node providers payloads) ''Lisboa'' w0)) \<and>
   fst (geocodeCity (node fallback [search_json]) ''Lisboa'' w0) = Some lisboa_nominatim \<and>
   none_to [endpoint maps_co_search] w0 (snd (geocodeCity (node fallback [search_json]) ''Lisboa'' w0))"
proof -
  let ?e = "node providers payloads"
  let ?w1 = "sleep 20 (w0\<lparr>requests := requests w0 @
         [mk_request ?e (withQuery ?e open_meteo_search (params (open_meteo_opts ''Lisboa'')))
            (open_meteo_opts ''Lisboa'')]\<rparr>)"
  let ?r = "Obj [(''name'', Str ''Lisboa''), (''country'', Str ''Portugal''),
             (''country_code'', Str ''PT''), (''latitude'', Num (Fin (3872 / 100))),
             (''longitude'', Num (Fin (- 914 / 100))), (''timezone'', Str ''Europe/Lisbon'')]"
  have res: "dot (snd geocoding_json) ''results'' = Inr (Arr [?r])" "\<not> nullish ?r"
    by (simp_all add: geocoding_json_def nullish_def)
  note t1 = first_result_wins [of ?e "''Lisboa''" w0 "snd geocoding_json" ?w1 ?r "[]",
      THEN conjunct1, rule_format, OF conjI [OF providers_geocoding conjI [OF res]]]
  have geo: "\<lparr>name = opt_dot ?r ''name'', country = opt_dot ?r ''country'',
                  country_code = opt_dot ?r ''country_code'', latitude = opt_dot ?r ''latitude'',
                  longitude = opt_dot ?r ''longitude'', timezone = opt_dot ?r ''timezone''\<rparr> = lisboa"
    by (simp add: opt_dot_def lisboa_def)
  let ?f = "node fallback [search_json]"
  note t3 = first_result_wins [of ?f "''Lisboa''" w0 _ _ _ _ _ lisboa_nominatim,
      THEN conjunct2, THEN conjunct2, rule_format]
  have h3: "returned (fst (openMeteo ?f ''Lisboa'' w0)) = None
      \<and> returned (fst (nominatim ?f ''Lisboa'' (waitGeocodeSlot (snd (openMeteo ?f ''Lisboa'' w0))))) = Some lisboa_nominatim"
    using fallback_openMeteo [of "''Lisboa''" w0]
    by (simp add: fallback_nominatim) (simp add: returned_def)
  from t1 geo t3 [OF h3] show ?thesis
    by simp
qed

text \<open>
  Claim C5. When each of the three \<^verbatim>\<open>try\<close> blocks throws or ends without returning,
  \<^verbatim>\<open>geocodeCity\<close> returns \<^verbatim>\<open>null\<close>, having gone through all three: every failure is
  swallowed and the next provider is tried. \<^verbatim>\<open>geocodeCity\<close> itself has no statement that can
  throw outside those blocks, so its result is a value in every case.
\<close>

theorem all_providers_fail_gives_null:
  assumes "no_result (fst (openMeteo e city w))"
    and "no_result (fst (nominatim e city (waitGeocodeSlot (snd (openMeteo e city w)))))"
    and "no_result (fst (mapsCo e city (waitGeocodeSlot (snd (nominatim e city
            (waitGeocodeSlot (snd (openMeteo e city w))))))))"
  shows "geocodeCity e city w =
           (None, snd (mapsCo e city (waitGeocodeSlot (snd (nominatim e city
                         (waitGeocodeSlot (snd (openMeteo e city w))))))))"
  using assms by (simp add: no_result_iff geocodeCity_def case_prod_beta)

theorem all_providers_fail_gives_null_witness:
  "fst (geocodeCity (node always404 []) ''Lisboa'' w0) = None"
proof -
  have down: "\<forall>h q. net (node always404 []) h q = (20, Response 404 (Inr ''Not Found''))"
    by (simp add: node_def always404_def)
  note n = not_found_geocodeCity [OF down, folded no_result_iff]
  from all_providers_fail_gives_null [of "node always404 []" "''Lisboa''" w0, OF n]
  show ?thesis
    by simp
qed

section \<open>Batch runner: properties\<close>

lemma processItems_length: "length (fst (processItems e items w)) = length items"
  by (induction items arbitrary: w) (simp_all add: case_prod_beta)

lemma processItems_append:
  "processItems e (xs @ ys) w =
     (fst (processItems e xs w) @ fst (processItems e ys (snd (processItems e xs w))),
      snd (processItems e ys (snd (processItems e xs w))))"
  by (induction xs arbitrary: w) (simp_all add: case_prod_beta)

lemma processItems_nth:
  "i < length items \<Longrightarrow>
     fst (processItems e items w) ! i =
       fst (processItem e (items ! i) (snd (processItems e (take i items) w)))"
proof (induction items arbitrary: i w)
  case Nil
  then show ?case by simp
next
  case (Cons x xs)
  show ?case
  proof (cases i)
    case 0
    then show ?thesis by (simp add: case_prod_beta)
  next
    case (Suc j)
    with Cons.prems have "j < length xs" by simp
    from Cons.IH [OF this] Suc show ?thesis
      by (simp add: case_prod_beta)
  qed
qed

lemma processItem_originalItem:
  "originalItem (fst (processItem e item w)) =
     (if trim (toString e (or_else item (Str []))) = [] then item
      else Str (trim (toString e (or_else item (Str [])))))"
  by (simp add: processItem_def Let_def split: prod.splits sum.splits)

lemma trim_blank: "trim ''  '' = []"
  by (simp add: trim_def whitespace_def)

lemma trim_Lisboa: "trim '' Lisboa '' = ''Lisboa''"
  by (simp add: trim_def whitespace_def)

text \<open>
  Claim C1. For every list of inputs, \<^verbatim>\<open>processItems\<close> returns a list of outcomes of the
  same length, in the same order, one outcome per input: the outcome at position \<open>i\<close> is
  the record that the loop body pushes for the input at position \<open>i\<close> (run on the world
  that the inputs before it left), and it carries that input (as given when it is blank,
  trimmed otherwise) as its \<^verbatim>\<open>originalItem\<close>.
\<close>

theorem processItems_one_outcome_per_input:
  "length (fst (processItems e items w)) = length items \<and>
   (\<forall>i < length items.
      fst (processItems e items w) ! i =
        fst (processItem e (items ! i) (snd (processItems e (take i items) w))) \<and>
      originalItem (fst (processItems e items w) ! i) =
        (if trim (toString e (or_else (items ! i) (Str []))) = [] then items ! i
         else Str (trim (toString e (or_else (items ! i) (Str []))))))"
  by (simp add: processItems_length processItems_nth processItem_originalItem)

theorem processItems_one_outcome_per_input_witness:
  "length (fst (processItems (node always404 []) [Str ''  '', Str '' Lisboa ''] w0)) = 2 \<and>
   originalItem (fst (processItems (node always404 []) [Str ''  '', Str '' Lisboa ''] w0) ! 0)
     = Str ''  '' \<and>
   originalItem (fst (processItems (node always404 []) [Str ''  '', Str '' Lisboa ''] w0) ! 1)
     = Str ''Lisboa''"
proof -
  let ?items = "[Str ''  '', Str '' Lisboa '']"
  let ?rs = "fst (processItems (node always404 []) ?items w0)"
  note t = processItems_one_outcome_per_input [of "node always404 []" ?items w0]
  have h0: "0 < length ?items" and h1: "1 < length ?items"
    by simp_all
  from t have len: "length ?rs = 2"
    by (simp del: processItems.simps)
  have o0: "originalItem (?rs ! 0) = Str ''  ''"
    using t [THEN conjunct2, rule_format, OF h0, THEN conjunct2]
    by (simp del: processItems.simps add: trim_blank or_else_def)
  have o1: "originalItem (?rs ! 1) = Str ''Lisboa''"
    using t [THEN conjunct2, rule_format, OF h1, THEN conjunct2]
    by (simp del: processItems.simps add: trim_Lisboa or_else_def)
  from len o0 o1 show ?thesis
    by (simp del: processItems.simps)
qed

text \<open>
  Claim C2. An input whose trimmed form is empty gets the failure outcome with the error
  "Destino vazio/ invalido" (the source writes it with an acute accent, code unit 225)
  and leaves the world as it was: no request is issued,
  the rate gate is not touched, and the inputs after it start from the world the inputs
  before it left.
\<close>

theorem blank_input_fails_without_request:
  assumes "trim (toString e (or_else item (Str []))) = []"
  shows "processItem e item w =
           (\<lparr>originalItem = item, processed = False, status = ''error'',
             error = Some (''Destino vazio/ inv'' @ [CHR 0xE1] @ ''lido''),
             processedAt = toISOString e (clock w), data = None\<rparr>, w) \<and>
         processItems e (pre @ item # post) w =
           (fst (processItems e pre w)
              @ \<lparr>originalItem = item, processed = False, status = ''error'',
                  error = Some (''Destino vazio/ inv'' @ [CHR 0xE1] @ ''lido''),
                  processedAt = toISOString e (clock (snd (processItems e pre w))), data = None\<rparr>
              # fst (processItems e post (snd (processItems e pre w))),
            snd (processItems e post (snd (processItems e pre w))))"
proof -
  have one: "processItem e item v =
           (\<lparr>originalItem = item, processed = False, status = ''error'',
             error = Some (''Destino vazio/ inv'' @ [CHR 0xE1] @ ''lido''),
             processedAt = toISOString e (clock v), data = None\<rparr>, v)" for v
    using assms by (simp add: processItem_def)
  show ?thesis
    by (simp add: one processItems_append case_prod_beta)
qed

theorem blank_input_fails_without_request_witness:
  "processItem (node providers payloads) (Str ''  '') w0 =
     (\<lparr>originalItem = Str ''  '', processed = False, status = ''error'',
       error = Some (''Destino vazio/ inv'' @ [CHR 0xE1] @ ''lido''),
       processedAt = ''2026-11-03T12:00:00.000Z'', data = None\<rparr>, w0)"
proof -
  have blank: "trim (toString (node providers payloads) (or_else (Str ''  '') (Str []))) = []"
    by (simp add: or_else_def trim_blank)
  from blank_input_fails_without_request [OF blank, of w0 "[]" "[]"] show ?thesis
    by (simp add: node_def)
qed

lemma geocodeCity_frame:
  "only_to geocoders w (snd (geocodeCity e city w))"
proof -
  obtain ra wa where a: "openMeteo e city w = (ra, wa)"
    by (cases "openMeteo e city w")
  obtain rb wb where b: "nominatim e city (waitGeocodeSlot wa) = (rb, wb)"
    by (cases "nominatim e city (waitGeocodeSlot wa)")
  obtain rc wc where c: "mapsCo e city (waitGeocodeSlot wb) = (rc, wc)"
    by (cases "mapsCo e city (waitGeocodeSlot wb)")
  have 1: "only_to geocoders w wa"
    using openMeteo_frame(2) [OF a] by (rule only_to_mono) (simp add: geocoders_def)
  have "only_to geocoders wa wb"
    using nominatim_frame [OF b] unfolding only_to_wait
    by (rule only_to_mono) (auto simp: geocoders_def)
  with 1 have 2: "only_to geocoders w wb"
    by (rule only_to_trans) simp_all
  have "only_to geocoders wb wc"
    using mapsCo_frame [OF c] unfolding only_to_wait
    by (rule only_to_mono) (auto simp: geocoders_def)
  with 2 have 3: "only_to geocoders w wc"
    by (rule only_to_trans) simp_all
  from a b c 1 2 3 show ?thesis
    by (simp add: geocodeCity_def split: option.splits)
qed

lemma makeTravelInfoRequest_None:
  "fst (geocodeCity e city w) = None \<Longrightarrow>
     makeTravelInfoRequest e city w = (Inl (Error (could_not_geocode city)), snd (geocodeCity e city w))"
  by (simp add: makeTravelInfoRequest_def could_not_geocode_def case_prod_beta split: option.splits)

lemma makeTravelInfoRequest_Some:
  "fst (geocodeCity e city w) = Some g \<Longrightarrow>
     makeTravelInfoRequest e city w =
       (case allSettled e g (snd (geocodeCity e city w)) of
          ((weatherRes, countryRes, holidaysRes, fxRes), w2) \<Rightarrow>
             (Inr (compose city g weatherRes countryRes holidaysRes fxRes), w2))"
  by (simp add: makeTravelInfoRequest_def case_prod_beta split: option.splits)

lemma could_not_geocode_nonempty: "could_not_geocode city \<noteq> []"
  by (simp add: could_not_geocode_def)

lemma trim_Lisboa': "trim ''Lisboa'' = ''Lisboa''"
  by (simp add: trim_def whitespace_def)

text \<open>
  Claim C9. A record of enrichment data is built only after \<^verbatim>\<open>geocodeCity\<close> has returned
  a result. When it returns \<^verbatim>\<open>null\<close> for an item, \<^verbatim>\<open>makeTravelInfoRequest\<close> throws, the
  item gets a failure outcome, and the world is the one \<^verbatim>\<open>geocodeCity\<close> left: every
  request of the item went to a geocoding provider, none to an enrichment provider.
  Conversely an outcome that carries data comes from a result of \<^verbatim>\<open>geocodeCity\<close>, whose
  fields are the destination of the data.
\<close>

theorem no_bundle_without_geo:
  assumes "trim (toString e (or_else item (Str []))) = city" and "city \<noteq> []"
  shows "(fst (geocodeCity e city w) = None \<longrightarrow>
            makeTravelInfoRequest e city w
              = (Inl (Error (could_not_geocode city)), snd (geocodeCity e city w)) \<and>
            processItem e item w
              = (\<lparr>originalItem = Str city, processed = False, status = ''error'',
                  error = Some (could_not_geocode city),
                  processedAt = toISOString e (clock (snd (geocodeCity e city w))),
                  data = None\<rparr>, snd (geocodeCity e city w)) \<and>
            only_to geocoders w (snd (processItem e item w))) \<and>
         (\<forall>b. data (fst (processItem e item w)) = Some b \<longrightarrow>
            (\<exists>g. fst (geocodeCity e city w) = Some g \<and>
                 destination b =
                   \<lparr>input = city, resolvedName = name g, dest_country = country g,
                    countryCode = country_code g,
                    coords = \<lparr>c_latitude = latitude g, c_longitude = longitude g\<rparr>,
                    dest_timezone = timezone g\<rparr>))"
proof (intro conjI impI allI)
  {
    assume n: "fst (geocodeCity e city w) = None"
    note m = makeTravelInfoRequest_None [OF n]
    show "makeTravelInfoRequest e city w
              = (Inl (Error (could_not_geocode city)), snd (geocodeCity e city w))"
      by (rule m)
    show p: "processItem e item w
              = (\<lparr>originalItem = Str city, processed = False, status = ''error'',
                  error = Some (could_not_geocode city),
                  processedAt = toISOString e (clock (snd (geocodeCity e city w))),
                  data = None\<rparr>, snd (geocodeCity e city w))"
      using assms
      by (simp add: processItem_def m explainFetchError_Error could_not_geocode_nonempty)
    show "only_to geocoders w (snd (processItem e item w))"
      by (simp add: p geocodeCity_frame)
  }
  fix b
  assume d: "data (fst (processItem e item w)) = Some b"
  show "\<exists>g. fst (geocodeCity e city w) = Some g \<and>
                 destination b =
                   \<lparr>input = city, resolvedName = name g, dest_country = country g,
                    countryCode = country_code g,
                    coords = \<lparr>c_latitude = latitude g, c_longitude = longitude g\<rparr>,
                    dest_timezone = timezone g\<rparr>"
  proof (cases "fst (geocodeCity e city w)")
    case None
    from makeTravelInfoRequest_None [OF None] d assms show ?thesis
      by (simp add: processItem_def)
  next
    case (Some g)
    from makeTravelInfoRequest_Some [OF Some] d assms have "b = compose city g
        (fst (fst (allSettled e g (snd (geocodeCity e city w)))))
        (fst (snd (fst (allSettled e g (snd (geocodeCity e city w))))))
        (fst (snd (snd (fst (allSettled e g (snd (geocodeCity e city w)))))))
        (snd (snd (snd (fst (allSettled e g (snd (geocodeCity e city w)))))))"
      by (simp add: processItem_def case_prod_beta)
    with Some show ?thesis
      by (simp add: compose_def Let_def)
  qed
qed

theorem no_bundle_without_geo_witness:
  "processItem (node always404 []) (Str ''Lisboa'') w0 =
     (\<lparr>originalItem = Str ''Lisboa'', processed = False, status = ''error'',
       error = Some (could_not_geocode ''Lisboa''),
       processedAt = ''2026-11-03T12:00:00.000Z'', data = None\<rparr>,
      snd (geocodeCity (node always404 []) ''Lisboa'' w0))"
proof -
  let ?e = "node always404 []"
  have c: "trim (toString ?e (or_else (Str ''Lisboa'') (Str []))) = ''Lisboa''" "''Lisboa'' \<noteq> []"
    by (simp_all add: or_else_def trim_Lisboa')
  have down: "\<forall>h q. net ?e h q = (20, Response 404 (Inr ''Not Found''))"
    by (simp add: node_def always404_def)
  note n = not_found_geocodeCity_None [OF down, of "''Lisboa''" w0]
  from no_bundle_without_geo [OF c, of w0, THEN conjunct1, rule_format, OF n]
  show ?thesis
    by (simp add: node_def)
qed

section \<open>Enrichment aggregator: properties\<close>

lemma count_to_only_to:
  "only_to eps w w' \<Longrightarrow> ep \<notin> set eps \<Longrightarrow> count_to ep w' = count_to ep w"
proof -
  assume o: "only_to eps w w'" and n: "ep \<notin> set eps"
  from only_to_D [OF o] obtain qs where
    qs: "requests w' = requests w @ qs" "\<forall>q \<in> set qs. endpoint (target q) \<in> set eps" by blast
  with n have "filter (\<lambda>q. endpoint (target q) = ep) qs = []"
    by (auto simp: filter_empty_conv)
  with qs show ?thesis
    by (simp add: count_to_def)
qed

lemma getWeather_frame: "only_to [endpoint forecast_url] w (snd (getWeather e lat lon tz w))"
proof -
  obtain r v where f: "fetchJSON e forecast_url (forecast_opts lat lon tz) w = (r, v)"
    by (cases "fetchJSON e forecast_url (forecast_opts lat lon tz) w")
  from fetchJSON_frame(2) [OF f] f show ?thesis
    by (simp add: getWeather_def split: sum.splits)
qed

lemma getHolidays_frame:
  "only_to [endpoint (holidays_url e (getFullYear e (clock w)) iso2)] w (snd (getHolidays e iso2 w))"
proof -
  let ?u = "holidays_url e (getFullYear e (clock w)) iso2"
  obtain r v where f: "fetchJSON e ?u (defaults\<lparr>timeoutMs := 12000\<rparr>) w = (r, v)"
    by (cases "fetchJSON e ?u (defaults\<lparr>timeoutMs := 12000\<rparr>) w")
  from fetchJSON_frame(2) [OF f] f show ?thesis
    by (simp add: getHolidays_def Let_def only_to_refl split: sum.splits)
qed

lemma getCountryInfo_frame:
  "only_to [endpoint (country_url e iso2)] w (snd (getCountryInfo e iso2 w))"
proof -
  let ?u = "country_url e iso2"
  obtain r v where f: "fetchJSON e ?u (defaults\<lparr>timeoutMs := 12000\<rparr>) w = (r, v)"
    by (cases "fetchJSON e ?u (defaults\<lparr>timeoutMs := 12000\<rparr>) w")
  from fetchJSON_frame(2) [OF f] f show ?thesis
    by (simp add: getCountryInfo_def Let_def only_to_refl split: sum.splits)
qed

lemma filter_date_filter:
  "\<forall>h \<in> set hs. \<not> nullish h \<Longrightarrow> filter_date p hs = Inr (filter (\<lambda>h. p (opt_dot h ''date'')) hs)"
  by (induction hs) (simp_all add: bind_def dot_not_nullish)

lemma string_date:
  assumes "dot h ''date'' = Inr (Str s)"
  shows "\<not> nullish h" and "date_ge e today (opt_dot h ''date'') = (\<not> less_str (iso_date h) today)"
    and "date_lt e today (opt_dot h ''date'') = less_str (iso_date h) today"
proof -
  from assms show "\<not> nullish h"
    by (cases h) (simp_all add: nullish_def)
  from assms have "opt_dot h ''date'' = Str s"
    by (simp add: opt_dot_def)
  then show "date_ge e today (opt_dot h ''date'') = (\<not> less_str (iso_date h) today)"
    and "date_lt e today (opt_dot h ''date'') = less_str (iso_date h) today"
    by (simp_all add: date_ge_def date_lt_def toPrimitive_def iso_date_def)
qed

lemma getHolidays_no_code:
  "\<not> truthy iso2 \<Longrightarrow> getHolidays e iso2 w = (Inr None, w)"
  by (simp add: getHolidays_def)

lemma getHolidays_dates:
  assumes "truthy iso2"
    and "fetchJSON e (holidays_url e (getFullYear e (clock w)) iso2) (defaults\<lparr>timeoutMs := 12000\<rparr>) w
           = (Inr (Arr hs), w1)"
    and "\<forall>h \<in> set hs. \<exists>s. dot h ''date'' = Inr (Str s)"
  shows "getHolidays e iso2 w =
           (Inr (Some \<lparr>year = getFullYear e (clock w),
               upcoming = take 5 (filter (\<lambda>h. \<not> less_str (iso_date h) (take 10 (toISOString e (clock w1)))) hs),
               past = drop (length (filter (\<lambda>h. less_str (iso_date h) (take 10 (toISOString e (clock w1)))) hs) - 5)
                        (filter (\<lambda>h. less_str (iso_date h) (take 10 (toISOString e (clock w1)))) hs)\<rparr>), w1)"
proof -
  let ?today = "take 10 (toISOString e (clock w1))"
  from assms(3) have nn: "\<forall>h \<in> set hs. \<not> nullish h"
    by (auto dest: string_date(1))
  have ge: "filter (\<lambda>h. date_ge e ?today (opt_dot h ''date'')) hs
          = filter (\<lambda>h. \<not> less_str (iso_date h) ?today) hs"
    using assms(3) by (intro filter_cong refl) (auto simp: string_date(2))
  have lt: "filter (\<lambda>h. date_lt e ?today (opt_dot h ''date'')) hs
          = filter (\<lambda>h. less_str (iso_date h) ?today) hs"
    using assms(3) by (intro filter_cong refl) (auto simp: string_date(3))
  show ?thesis
    by (simp add: getHolidays_def assms(1,2) Let_def filter_date_filter [OF nn] bind_def ge lt)
qed

lemma allSettled_fst:
  "fst (allSettled e g w) =
     (settle (fst (getWeather e (latitude g) (longitude g) (timezone g) w)),
      settle (fst (getCountryInfo e (country_code g)
                (snd (getWeather e (latitude g) (longitude g) (timezone g) w)))),
      settle (fst (getHolidays e (country_code g)
                (snd (getCountryInfo e (country_code g)
                  (snd (getWeather e (latitude g) (longitude g) (timezone g) w)))))),
      settle (fst (fxBranch e (country_code g) (fx_start e g w))))"
  by (simp add: allSettled_def fx_start_def case_prod_beta)

text \<open>The test doubles, branch by branch.\<close>

lemma parse_payloads:
  "JSON_parse (node N payloads) (fst geocoding_json) = Some (snd geocoding_json)"
  "JSON_parse (node N payloads) (fst forecast_json) = Some (snd forecast_json)"
  "JSON_parse (node N payloads) (fst country_json) = Some (snd country_json)"
  "JSON_parse (node N payloads) (fst holidays_json) = Some (snd holidays_json)"
  "JSON_parse (node N payloads) (fst rates_json) = Some (snd rates_json)"
  by (simp_all add: node_def payloads_def geocoding_json_def forecast_json_def country_json_def
      holidays_json_def rates_json_def)

lemma node_fields:
  "net (node N t) = N"
  "encodeURIComponent (node N t) s = s"
  "getFullYear (node N t) c = 2026"
  "toISOString (node N t) c = ''2026-11-03T12:00:00.000Z''"
  by (simp_all add: node_def)

lemma country_url_PT:
  "endpoint (country_url (node N t) (Str ''PT'')) = ''https://restcountries.com/v3.1/alpha/PT''"
  by (simp add: country_url_def node_fields)

lemma holidays_url_PT:
  "endpoint (holidays_url (node N t) 2026 (Str ''PT'')) = ''https://date.nager.at/api/v3/PublicHolidays/2026/PT''"
  by (simp add: holidays_url_def node_fields decimal.simps)

lemma node_geocodeCity:
  assumes "\<And>h q. endpoint (target q) = endpoint open_meteo_search \<Longrightarrow> N h q = reply geocoding_json"
  shows "fst (geocodeCity (node N payloads) ''Lisboa'' w) = Some lisboa"
proof -
  let ?e = "node N payloads"
  let ?req = "mk_request ?e (withQuery ?e open_meteo_search (params (open_meteo_opts ''Lisboa'')))
            (open_meteo_opts ''Lisboa'')"
  let ?r = "Obj [(''name'', Str ''Lisboa''), (''country'', Str ''Portugal''),
             (''country_code'', Str ''PT''), (''latitude'', Num (Fin (3872 / 100))),
             (''longitude'', Num (Fin (- 914 / 100))), (''timezone'', Str ''Europe/Lisbon'')]"
  have f: "fetchJSON ?e open_meteo_search (open_meteo_opts ''Lisboa'') w =
     (Inr (snd geocoding_json), sleep 20 (w\<lparr>requests := requests w @ [?req]\<rparr>))"
  proof (rule fetchJSON_first_ok)
    show "net ?e (requests w) ?req = (20, Response 200 (Inr (fst geocoding_json)))"
      by (simp add: node_fields assms mk_request_endpoint reply_def)
    show "20 < timeoutMs (open_meteo_opts ''Lisboa'')"
      by (simp add: open_meteo_opts_def)
    show "ok 200"
      by (simp add: ok_def)
    show "JSON_parse ?e (fst geocoding_json) = Some (snd geocoding_json)"
      by (rule parse_payloads)
  qed
  have res: "dot (snd geocoding_json) ''results'' = Inr (Arr [?r])" "\<not> nullish ?r"
    by (simp_all add: geocoding_json_def nullish_def)
  from openMeteo_results [OF f res] show ?thesis
    by (simp add: geocodeCity_def returned_def opt_dot_def lisboa_def)
qed

lemma node_getWeather:
  assumes "\<And>h q. endpoint (target q) = endpoint forecast_url \<Longrightarrow> N h q = reply forecast_json"
  shows "fst (getWeather (node N payloads) lat lon tz v) = Inr forecast"
proof -
  let ?e = "node N payloads"
  let ?opts = "forecast_opts lat lon tz"
  let ?req = "mk_request ?e (withQuery ?e forecast_url (params ?opts)) ?opts"
  have f: "fetchJSON ?e forecast_url ?opts v =
     (Inr (snd forecast_json), sleep 20 (v\<lparr>requests := requests v @ [?req]\<rparr>))"
  proof (rule fetchJSON_first_ok)
    show "net ?e (requests v) ?req = (20, Response 200 (Inr (fst forecast_json)))"
      by (simp add: node_fields assms mk_request_endpoint reply_def)
    show "20 < timeoutMs ?opts"
      by (simp add: forecast_opts_def)
    show "ok 200"
      by (simp add: ok_def)
    show "JSON_parse ?e (fst forecast_json) = Some (snd forecast_json)"
      by (rule parse_payloads)
  qed
  show ?thesis
    by (simp add: getWeather_def f forecast_json_def opt_dot_def or_else_def forecast_def)
qed

lemma node_getWeather_down:
  assumes "\<And>h q. endpoint (target q) = endpoint forecast_url \<Longrightarrow> N h q = (20, Response 404 (Inr ''Not Found''))"
  shows "\<exists>er. fst (getWeather (node N payloads) lat lon tz v) = Inl er"
proof -
  let ?e = "node N payloads"
  let ?opts = "forecast_opts lat lon tz"
  let ?req = "mk_request ?e (withQuery ?e forecast_url (params ?opts)) ?opts"
  have "fst (fetchJSON_loop ?e ?req ?opts 0 None v) = Inl (http_error ?e ?req 404 ''Not Found'')"
    using status_fails [of 0 ?opts ?e v ?req 20 404 "''Not Found''" None]
    by (simp add: node_fields assms mk_request_endpoint forecast_opts_def ok_def)
  then show ?thesis
    by (cases "fetchJSON_loop ?e ?req ?opts 0 None v") (simp add: getWeather_def fetchJSON_def)
qed

lemma node_getCountryInfo:
  assumes "\<And>q. endpoint (target q) = ''https://restcountries.com/v3.1/alpha/PT'' \<Longrightarrow>
             N (requests v) q = reply country_json"
  shows "fst (getCountryInfo (node N payloads) (Str ''PT'') v) = Inr (Some portugal)"
proof -
  let ?e = "node N payloads"
  let ?opts = "defaults\<lparr>timeoutMs := 12000\<rparr>"
  let ?u = "country_url ?e (Str ''PT'')"
  let ?req = "mk_request ?e (withQuery ?e ?u (params ?opts)) ?opts"
  have f: "fetchJSON ?e ?u ?opts v =
     (Inr (snd country_json), sleep 20 (v\<lparr>requests := requests v @ [?req]\<rparr>))"
  proof (rule fetchJSON_first_ok)
    show "net ?e (requests v) ?req = (20, Response 200 (Inr (fst country_json)))"
      by (simp add: node_fields assms mk_request_endpoint country_url_PT reply_def)
    show "20 < timeoutMs ?opts"
      by simp
    show "ok 200"
      by (simp add: ok_def)
    show "JSON_parse ?e (fst country_json) = Some (snd country_json)"
      by (rule parse_payloads)
  qed
  show ?thesis
    by (simp add: getCountryInfo_def f country_json_def opt_dot_def opt_at0_def or_else_def bind_def
        portugal_def)
qed

lemma node_getHolidays:
  assumes "\<And>h q. endpoint (target q) = ''https://date.nager.at/api/v3/PublicHolidays/2026/PT'' \<Longrightarrow>
             N h q = reply holidays_json"
  shows "fst (getHolidays (node N payloads) (Str ''PT'') v) = Inr (Some holidays_2026)"
proof -
  let ?e = "node N payloads"
  let ?opts = "defaults\<lparr>timeoutMs := 12000\<rparr>"
  let ?u = "holidays_url ?e 2026 (Str ''PT'')"
  let ?req = "mk_request ?e (withQuery ?e ?u (params ?opts)) ?opts"
  let ?hs = "[holiday ''2026-01-01'', holiday ''2026-04-03'', holiday ''2026-04-25'',
           holiday ''2026-05-01'', holiday ''2026-06-10'', holiday ''2026-10-05'',
           holiday ''2026-12-08'', holiday ''2026-12-25'']"
  have f: "fetchJSON ?e ?u ?opts v =
     (Inr (snd holidays_json), sleep 20 (v\<lparr>requests := requests v @ [?req]\<rparr>))"
  proof (rule fetchJSON_first_ok)
    show "net ?e (requests v) ?req = (20, Response 200 (Inr (fst holidays_json)))"
      by (simp add: node_fields assms mk_request_endpoint holidays_url_PT reply_def)
    show "20 < timeoutMs ?opts"
      by simp
    show "ok 200"
      by (simp add: ok_def)
    show "JSON_parse ?e (fst holidays_json) = Some (snd holidays_json)"
      by (rule parse_payloads)
  qed
  have d: "\<forall>h \<in> set ?hs. \<exists>s. dot h ''date'' = Inr (Str s)"
    by (simp add: holiday_def)
  have i: "iso_date (holiday s) = s" for s
    by (simp add: iso_date_def holiday_def opt_dot_def)
  from f have "fetchJSON ?e (holidays_url ?e (getFullYear ?e (clock v)) (Str ''PT'')) ?opts v
           = (Inr (Arr ?hs), sleep 20 (v\<lparr>requests := requests v @ [?req]\<rparr>))"
    by (simp add: node_fields holidays_json_def)
  from getHolidays_dates [OF _ this d] show ?thesis
    by (simp add: node_fields i holidays_2026_def)
qed

lemma node_getExchangeRate:
  assumes "\<And>h q. endpoint (target q) = endpoint exchangerate_latest \<Longrightarrow> N h q = reply rates_json"
  shows "fst (getExchangeRate (node N payloads) (Str ''EUR'') ''BRL'' v) = Inr (Num (Fin 6))"
proof -
  let ?e = "node N payloads"
  let ?opts = "exchangerate_opts (Str ''EUR'') ''BRL''"
  let ?req = "mk_request ?e (withQuery ?e exchangerate_latest (params ?opts)) ?opts"
  have f: "fetchJSON ?e exchangerate_latest ?opts v =
     (Inr (snd rates_json), sleep 20 (v\<lparr>requests := requests v @ [?req]\<rparr>))"
  proof (rule fetchJSON_first_ok)
    show "net ?e (requests v) ?req = (20, Response 200 (Inr (fst rates_json)))"
      by (simp add: node_fields assms mk_request_endpoint reply_def)
    show "20 < timeoutMs ?opts"
      by (simp add: exchangerate_opts_def)
    show "ok 200"
      by (simp add: ok_def)
    show "JSON_parse ?e (fst rates_json) = Some (snd rates_json)"
      by (rule parse_payloads)
  qed
  show ?thesis
    by (simp add: getExchangeRate_def f rates_json_def opt_dot_def or_else_def)
qed

lemma node_fxBranch:
  assumes "fst (getCountryInfo e cc v) = Inr (Some portugal)"
    and "fst (getExchangeRate e (Str ''EUR'') ''BRL'' (snd (getCountryInfo e cc v))) = Inr r"
  shows "fst (fxBranch e cc v) = Inr r"
  using assms
  by (cases "getCountryInfo e cc v")
     (simp add: fxBranch_def first_code_def or_else_def portugal_def)

lemma compose_weather:
  "weather (compose city g wr cr hr fr) = (case wr of Fulfilled v \<Rightarrow> Some v | Rejected er \<Rightarrow> None)"
  by (simp add: compose_def Let_def)

lemma compose_countryInfo:
  "countryInfo (compose city g wr cr hr fr) = (case cr of Fulfilled v \<Rightarrow> v | Rejected er \<Rightarrow> None)"
  by (simp add: compose_def Let_def)

lemma compose_holidays:
  "holidays (compose city g wr cr hr fr) = (case hr of Fulfilled v \<Rightarrow> v | Rejected er \<Rightarrow> None)"
  by (simp add: compose_def Let_def)

lemma compose_exchange:
  "exchange (compose city g wr cr hr fr) = Some x \<longleftrightarrow>
     (\<exists>i c cs. fr = Fulfilled (rate x) \<and> truthy (rate x) \<and> cr = Fulfilled (Some i) \<and>
        currencies i = c # cs \<and> code c \<noteq> [] \<and> x = \<lparr>base = code c, quote = ''BRL'', rate = rate x\<rparr>)"
  by (cases fr; cases cr)
     (auto simp: compose_def Let_def first_code_def split: option.splits list.splits)

lemma compose_exchange_None:
  "exchange (compose city g wr cr hr fr) = None \<longleftrightarrow>
     \<not> ((\<exists>r. fr = Fulfilled r \<and> truthy r) \<and>
        (\<exists>i c cs. cr = Fulfilled (Some i) \<and> currencies i = c # cs \<and> code c \<noteq> []))"
  by (cases fr; cases cr)
     (auto simp: compose_def Let_def first_code_def split: option.splits list.splits)

lemma makeTravelInfoRequest_compose:
  assumes "fst (geocodeCity e city w) = Some g"
    and "fst (allSettled e g (snd (geocodeCity e city w))) = (wr, cr, hr, fr)"
  shows "fst (makeTravelInfoRequest e city w) = Inr (compose city g wr cr hr fr)"
  using assms by (simp add: makeTravelInfoRequest_Some case_prod_beta)

lemma allSettled_fx:
  "snd (snd (snd (fst (allSettled e g w)))) = settle (fst (fxBranch e (country_code g) (fx_start e g w)))"
  by (simp add: allSettled_def fx_start_def case_prod_beta)

lemma fxBranch_rate:
  assumes "fst (fxBranch e cc v) = Inr r" and "truthy r"
  shows "\<exists>i c cs. fst (getCountryInfo e cc v) = Inr (Some i) \<and> currencies i = c # cs \<and> code c \<noteq> [] \<and>
           fst (getExchangeRate e (Str (code c)) ''BRL'' (snd (getCountryInfo e cc v))) = Inr r"
proof -
  obtain ri v1 where ci: "getCountryInfo e cc v = (ri, v1)"
    by (cases "getCountryInfo e cc v")
  show ?thesis
  proof (cases ri)
    case (Inl er)
    with assms ci show ?thesis by (simp add: fxBranch_def)
  next
    case (Inr info)
    show ?thesis
    proof (cases "truthy (or_else (first_code info) Null)")
      case False
      with assms ci Inr show ?thesis
        by (simp add: fxBranch_def Let_def)
    next
      case True
      then obtain i c cs where i: "info = Some i" "currencies i = c # cs" "code c \<noteq> []"
        by (auto simp: first_code_def or_else_def split: option.splits list.splits if_splits)
      then have "or_else (first_code info) Null = Str (code c)"
        by (simp add: first_code_def or_else_def)
      with assms ci Inr True i show ?thesis
        by (simp add: fxBranch_def Let_def)
    qed
  qed
qed

lemma getExchangeRate_zero:
  assumes "truthy bc" and "fetchJSON e exchangerate_latest (exchangerate_opts bc q) v = (Inr d, v')"
    and "opt_dot (opt_dot d ''rates'') q = Num (Fin 0)"
  shows "getExchangeRate e bc q v = (Inr Null, v')"
  using assms by (simp add: getExchangeRate_def or_else_def)

lemma providers_replies:
  "endpoint (target q) = endpoint open_meteo_search \<Longrightarrow> providers h q = reply geocoding_json"
  "endpoint (target q) = endpoint forecast_url \<Longrightarrow> providers h q = reply forecast_json"
  "endpoint (target q) = ''https://restcountries.com/v3.1/alpha/PT'' \<Longrightarrow> providers h q = reply country_json"
  "endpoint (target q) = ''https://date.nager.at/api/v3/PublicHolidays/2026/PT'' \<Longrightarrow> providers h q = reply holidays_json"
  "endpoint (target q) = endpoint exchangerate_latest \<Longrightarrow> providers h q = reply rates_json"
  by (simp_all add: providers_def open_meteo_search_def forecast_url_def exchangerate_latest_def)

lemma flaky_replies:
  "endpoint (target q) = endpoint open_meteo_search \<Longrightarrow> flaky h q = reply geocoding_json"
  "endpoint (target q) = endpoint forecast_url \<Longrightarrow> flaky h q = reply forecast_json"
  "endpoint (target q) = ''https://date.nager.at/api/v3/PublicHolidays/2026/PT'' \<Longrightarrow> flaky h q = reply holidays_json"
  "endpoint (target q) = endpoint exchangerate_latest \<Longrightarrow> flaky h q = reply rates_json"
  by (simp_all add: flaky_def providers_replies)
     (simp_all add: open_meteo_search_def forecast_url_def exchangerate_latest_def)

lemma no_forecast_replies:
  "endpoint (target q) = endpoint open_meteo_search \<Longrightarrow> no_forecast h q = reply geocoding_json"
  "endpoint (target q) = endpoint forecast_url \<Longrightarrow> no_forecast h q = (20, Response 404 (Inr ''Not Found''))"
  "endpoint (target q) = ''https://restcountries.com/v3.1/alpha/PT'' \<Longrightarrow> no_forecast h q = reply country_json"
  "endpoint (target q) = ''https://date.nager.at/api/v3/PublicHolidays/2026/PT'' \<Longrightarrow> no_forecast h q = reply holidays_json"
  "endpoint (target q) = endpoint exchangerate_latest \<Longrightarrow> no_forecast h q = reply rates_json"
  by (simp_all add: no_forecast_def providers_replies)
     (simp_all add: open_meteo_search_def forecast_url_def exchangerate_latest_def)

lemma providers_run:
  "fst (geocodeCity (node providers payloads) ''Lisboa'' w) = Some lisboa"
  "fst (allSettled (node providers payloads) lisboa v) =
     (Fulfilled forecast, Fulfilled (Some portugal), Fulfilled (Some holidays_2026), Fulfilled (Num (Fin 6)))"
proof -
  let ?e = "node providers payloads"
  show "fst (geocodeCity ?e ''Lisboa'' w) = Some lisboa"
    by (rule node_geocodeCity) (rule providers_replies)
  have cc: "country_code lisboa = Str ''PT''"
    by (simp add: lisboa_def)
  have c: "fst (getCountryInfo ?e (Str ''PT'') u) = Inr (Some portugal)" for u
    by (rule node_getCountryInfo) (rule providers_replies)
  have r: "fst (getExchangeRate ?e (Str ''EUR'') ''BRL'' u) = Inr (Num (Fin 6))" for u
    by (rule node_getExchangeRate) (rule providers_replies)
  show "fst (allSettled ?e lisboa v) =
     (Fulfilled forecast, Fulfilled (Some portugal), Fulfilled (Some holidays_2026), Fulfilled (Num (Fin 6)))"
    by (simp add: allSettled_fst cc settle_def c node_fxBranch [OF c r]
        node_getWeather [of providers, OF providers_replies(2)]
        node_getHolidays [of providers, OF providers_replies(4)])
qed

lemma no_forecast_run:
  "fst (geocodeCity (node no_forecast payloads) ''Lisboa'' w) = Some lisboa"
  "\<exists>er. fst (allSettled (node no_forecast payloads) lisboa v) =
     (Rejected er, Fulfilled (Some portugal), Fulfilled (Some holidays_2026), Fulfilled (Num (Fin 6)))"
proof -
  let ?e = "node no_forecast payloads"
  show "fst (geocodeCity ?e ''Lisboa'' w) = Some lisboa"
    by (rule node_geocodeCity) (rule no_forecast_replies)
  have cc: "country_code lisboa = Str ''PT''"
    by (simp add: lisboa_def)
  have c: "fst (getCountryInfo ?e (Str ''PT'') u) = Inr (Some portugal)" for u
    by (rule node_getCountryInfo) (rule no_forecast_replies)
  have r: "fst (getExchangeRate ?e (Str ''EUR'') ''BRL'' u) = Inr (Num (Fin 6))" for u
    by (rule node_getExchangeRate) (rule no_forecast_replies)
  from node_getWeather_down [of no_forecast, OF no_forecast_replies(2)]
  obtain er where "fst (getWeather ?e (latitude lisboa) (longitude lisboa) (timezone lisboa) v) = Inl er"
    by blast
  then have "fst (allSettled ?e lisboa v) =
     (Rejected er, Fulfilled (Some portugal), Fulfilled (Some holidays_2026), Fulfilled (Num (Fin 6)))"
    by (simp add: allSettled_fst cc settle_def c node_fxBranch [OF c r]
        node_getHolidays [of no_forecast, OF no_forecast_replies(4)])
  then show "\<exists>er. fst (allSettled ?e lisboa v) =
     (Rejected er, Fulfilled (Some portugal), Fulfilled (Some holidays_2026), Fulfilled (Num (Fin 6)))"
    by blast
qed

lemma count_replicate:
  "P q \<Longrightarrow> length (filter P (xs @ replicate k q)) = length (filter P xs) + k"
  by (induction k) (simp_all add: replicate_append_same [symmetric] del: replicate_Suc)

lemma flaky_country_fails:
  assumes "count_to ''https://restcountries.com/v3.1/alpha/PT'' v mod 6 = 0"
  shows "fst (getCountryInfo (node flaky payloads) (Str ''PT'') v)
           = Inl (Error ''HTTP 503 em https://restcountries.com/v3.1/alpha/PT'')"
    and "count_to ''https://restcountries.com/v3.1/alpha/PT'' (snd (getCountryInfo (node flaky payloads) (Str ''PT'') v))
           = count_to ''https://restcountries.com/v3.1/alpha/PT'' v + 5"
proof -
  let ?e = "node flaky payloads"
  let ?rc = "''https://restcountries.com/v3.1/alpha/PT''"
  let ?opts = "defaults\<lparr>timeoutMs := 12000\<rparr>"
  let ?u = "country_url ?e (Str ''PT'')"
  define req where "req = mk_request ?e (withQuery ?e ?u (params ?opts)) ?opts"
  have ep: "endpoint (target req) = ?rc"
    by (simp add: req_def mk_request_endpoint country_url_PT)
  have r4: "retries ?opts = 4"
    by (simp add: defaults_def)
  have down: "net ?e (requests v @ replicate k req) req = (20, Response 503 (Inr []))"
    if "0 + k \<le> retries ?opts" for k
  proof -
    have "length (filter (\<lambda>q. endpoint (target q) = ?rc) (requests v @ replicate k req))
            = count_to ?rc v + k"
      unfolding count_to_def by (rule count_replicate) (rule ep)
    moreover from assms that r4 have "(count_to ?rc v + k) mod 6 \<noteq> 5"
      by presburger
    ultimately have "length (filter (\<lambda>q. endpoint (target q) = ?rc) (requests v @ replicate k req)) mod 6 \<noteq> 5"
      by simp
    with ep show ?thesis
      unfolding node_fields flaky_def by (simp only: simp_thms if_True)
  qed
  have err: "http_error ?e req 503 [] = Error ''HTTP 503 em https://restcountries.com/v3.1/alpha/PT''"
    by (simp add: req_def http_error_def decimal.simps node_def mk_request_def withQuery_def defaults_def
        country_url_def)
  have "20 < timeoutMs ?opts" "\<not> ok 503" "0 \<le> retries ?opts"
    by (simp_all add: ok_def)
  from status_fails [of 0 ?opts ?e v req 20 503 "[]" None, OF down this]
  have l: "fst (fetchJSON_loop ?e req ?opts 0 None v) = Inl (Error ''HTTP 503 em https://restcountries.com/v3.1/alpha/PT'')"
    "requests (snd (fetchJSON_loop ?e req ?opts 0 None v)) = requests v @ replicate 5 req"
    by (simp_all add: err r4)
  obtain r v' where f: "fetchJSON_loop ?e req ?opts 0 None v = (r, v')"
    by (cases "fetchJSON_loop ?e req ?opts 0 None v")
  have unf: "fetchJSON ?e ?u ?opts v = fetchJSON_loop ?e req ?opts 0 None v"
    by (simp only: fetchJSON_def req_def)
  from l f have g: "getCountryInfo ?e (Str ''PT'') v = (Inl (Error ''HTTP 503 em https://restcountries.com/v3.1/alpha/PT''), v')"
    and v': "requests v' = requests v @ replicate 5 req"
    by (simp_all add: getCountryInfo_def unf)
  from g show "fst (getCountryInfo ?e (Str ''PT'') v)
           = Inl (Error ''HTTP 503 em https://restcountries.com/v3.1/alpha/PT'')"
    by simp
  from g v' show "count_to ?rc (snd (getCountryInfo ?e (Str ''PT'') v)) = count_to ?rc v + 5"
    unfolding count_to_def
    by (simp only: snd_conv count_replicate [of "\<lambda>q. endpoint (target q) = ?rc", OF ep])
qed

lemma flaky_country_ok:
  assumes "count_to ''https://restcountries.com/v3.1/alpha/PT'' v mod 6 = 5"
  shows "fst (getCountryInfo (node flaky payloads) (Str ''PT'') v) = Inr (Some portugal)"
proof (rule node_getCountryInfo)
  fix q :: request
  assume "endpoint (target q) = ''https://restcountries.com/v3.1/alpha/PT''"
  with assms show "flaky (requests v) q = reply country_json"
    by (simp add: flaky_def count_to_def providers_replies)
qed

lemma flaky_run:
  "fst (geocodeCity (node flaky payloads) ''Lisboa'' w0) = Some lisboa"
  "fst (allSettled (node flaky payloads) lisboa (snd (geocodeCity (node flaky payloads) ''Lisboa'' w0))) =
     (Fulfilled forecast, Rejected (Error ''HTTP 503 em https://restcountries.com/v3.1/alpha/PT''),
      Fulfilled (Some holidays_2026), Fulfilled (Num (Fin 6)))"
proof -
  let ?e = "node flaky payloads"
  let ?rc = "''https://restcountries.com/v3.1/alpha/PT''"
  let ?w1 = "snd (geocodeCity ?e ''Lisboa'' w0)"
  let ?w2 = "snd (getWeather ?e (latitude lisboa) (longitude lisboa) (timezone lisboa) ?w1)"
  let ?w3 = "snd (getCountryInfo ?e (Str ''PT'') ?w2)"
  let ?w4 = "snd (getHolidays ?e (Str ''PT'') ?w3)"
  show "fst (geocodeCity ?e ''Lisboa'' w0) = Some lisboa"
    by (rule node_geocodeCity) (rule flaky_replies)
  have cc: "country_code lisboa = Str ''PT''"
    by (simp add: lisboa_def)
  have "count_to ?rc w0 = 0"
    by (simp add: count_to_def w0_def)
  moreover have "?rc \<notin> set geocoders"
    by (simp add: geocoders_def open_meteo_search_def nominatim_search_def nominatim_reverse_def
        maps_co_search_def)
  ultimately have c1: "count_to ?rc ?w1 = 0"
    using count_to_only_to [OF geocodeCity_frame, of ?rc ?e "''Lisboa''" w0] by simp
  have c2: "count_to ?rc ?w2 = 0"
    using count_to_only_to [OF getWeather_frame, of ?rc ?e _ _ _ ?w1] c1
    by (simp add: forecast_url_def)
  note fail = flaky_country_fails [of ?w2]
  have c3: "count_to ?rc ?w3 = 5"
    using fail(2) c2 by simp
  have c4: "count_to ?rc ?w4 = 5"
    using count_to_only_to [OF getHolidays_frame, of ?rc ?e ?w3 "Str ''PT''"] c3
    by (simp add: node_fields holidays_url_PT)
  have c: "fst (getCountryInfo ?e (Str ''PT'') ?w4) = Inr (Some portugal)"
    by (rule flaky_country_ok) (simp add: c4)
  have r: "fst (getExchangeRate ?e (Str ''EUR'') ''BRL'' u) = Inr (Num (Fin 6))" for u
    by (rule node_getExchangeRate) (rule flaky_replies)
  have fx: "fst (fxBranch ?e (Str ''PT'') ?w4) = Inr (Num (Fin 6))"
    by (rule node_fxBranch [OF c r])
  show "fst (allSettled ?e lisboa ?w1) =
     (Fulfilled forecast, Rejected (Error ''HTTP 503 em https://restcountries.com/v3.1/alpha/PT''),
      Fulfilled (Some holidays_2026), Fulfilled (Num (Fin 6)))"
    using fail(1) c2 fx
    by (simp add: allSettled_fst fx_start_def cc settle_def
        node_getWeather [of flaky, OF flaky_replies(2)]
        node_getHolidays [of flaky, OF flaky_replies(3)])
qed

text \<open>
  Claim C6 says that when one branch fails and the others succeed, every other field is
  populated from its own branch's result. That fails when the branch that fails is the
  country branch: against a country service that answers 503 to the five attempts of the
  second branch and 200 to the request of the fourth branch, the fourth branch fulfils with
  the rate 6 and \<^verbatim>\<open>exchange\<close> is \<^verbatim>\<open>null\<close> all the same.
\<close>

theorem country_failure_also_nulls_exchange:
  "fst (geocodeCity (node flaky payloads) ''Lisboa'' w0) = Some lisboa \<and>
   fst (allSettled (node flaky payloads) lisboa (snd (geocodeCity (node flaky payloads) ''Lisboa'' w0))) =
     (Fulfilled forecast, Rejected (Error ''HTTP 503 em https://restcountries.com/v3.1/alpha/PT''),
      Fulfilled (Some holidays_2026), Fulfilled (Num (Fin 6))) \<and>
   field weather (makeTravelInfoRequest (node flaky payloads) ''Lisboa'' w0) = Some (Some forecast) \<and>
   field holidays (makeTravelInfoRequest (node flaky payloads) ''Lisboa'' w0) = Some (Some holidays_2026) \<and>
   field countryInfo (makeTravelInfoRequest (node flaky payloads) ''Lisboa'' w0) = Some None \<and>
   field exchange (makeTravelInfoRequest (node flaky payloads) ''Lisboa'' w0) = Some None"
proof -
  let ?e = "node flaky payloads"
  let ?er = "Error ''HTTP 503 em https://restcountries.com/v3.1/alpha/PT''"
  let ?b = "compose ''Lisboa'' lisboa (Fulfilled forecast) (Rejected ?er)
                 (Fulfilled (Some holidays_2026)) (Fulfilled (Num (Fin 6)))"
  have b: "fst (makeTravelInfoRequest ?e ''Lisboa'' w0) = Inr ?b"
    by (rule makeTravelInfoRequest_compose [OF flaky_run(1) flaky_run(2)])
  have "exchange ?b = None"
    unfolding compose_exchange_None by simp
  with b flaky_run show ?thesis
    by (simp add: field_def compose_weather compose_holidays compose_countryInfo)
qed

text \<open>
  Claim C6, as amended. Once geocoding has given a result, \<^verbatim>\<open>makeTravelInfoRequest\<close>
  always returns a record. Its \<^verbatim>\<open>weather\<close>, \<^verbatim>\<open>countryInfo\<close> and \<^verbatim>\<open>holidays\<close> are each
  what their own branch fulfilled with, and \<^verbatim>\<open>null\<close> when that branch rejected, whatever
  the other branches did. Its \<^verbatim>\<open>exchange\<close> is a record exactly when the fourth branch
  fulfilled with a truthy rate and the country branch fulfilled with a first currency
  code; it then holds that code, \<^verbatim>\<open>BRL\<close> and that rate.
\<close>

theorem aggregator_isolates_branches:
  assumes "fst (geocodeCity e city w) = Some g"
    and "fst (allSettled e g (snd (geocodeCity e city w))) = (wr, cr, hr, fr)"
  shows "fst (makeTravelInfoRequest e city w) = Inr (compose city g wr cr hr fr) \<and>
         weather (compose city g wr cr hr fr) = (case wr of Fulfilled v \<Rightarrow> Some v | Rejected er \<Rightarrow> None) \<and>
         countryInfo (compose city g wr cr hr fr) = (case cr of Fulfilled v \<Rightarrow> v | Rejected er \<Rightarrow> None) \<and>
         holidays (compose city g wr cr hr fr) = (case hr of Fulfilled v \<Rightarrow> v | Rejected er \<Rightarrow> None) \<and>
         (exchange (compose city g wr cr hr fr) \<noteq> None \<longleftrightarrow>
            (\<exists>r. fr = Fulfilled r \<and> truthy r) \<and>
            (\<exists>i c cs. cr = Fulfilled (Some i) \<and> currencies i = c # cs \<and> code c \<noteq> [])) \<and>
         (\<forall>r i c cs. fr = Fulfilled r \<and> truthy r \<and> cr = Fulfilled (Some i) \<and> currencies i = c # cs \<and> code c \<noteq> []
            \<longrightarrow> exchange (compose city g wr cr hr fr) = Some \<lparr>base = code c, quote = ''BRL'', rate = r\<rparr>)"
proof (intro conjI allI impI)
  show "fst (makeTravelInfoRequest e city w) = Inr (compose city g wr cr hr fr)"
    using assms by (rule makeTravelInfoRequest_compose)
  show "weather (compose city g wr cr hr fr) = (case wr of Fulfilled v \<Rightarrow> Some v | Rejected er \<Rightarrow> None)"
    by (rule compose_weather)
  show "countryInfo (compose city g wr cr hr fr) = (case cr of Fulfilled v \<Rightarrow> v | Rejected er \<Rightarrow> None)"
    by (rule compose_countryInfo)
  show "holidays (compose city g wr cr hr fr) = (case hr of Fulfilled v \<Rightarrow> v | Rejected er \<Rightarrow> None)"
    by (rule compose_holidays)
  show "exchange (compose city g wr cr hr fr) \<noteq> None \<longleftrightarrow>
            (\<exists>r. fr = Fulfilled r \<and> truthy r) \<and>
            (\<exists>i c cs. cr = Fulfilled (Some i) \<and> currencies i = c # cs \<and> code c \<noteq> [])"
    unfolding compose_exchange_None by simp
next
  fix r i c cs
  assume "fr = Fulfilled r \<and> truthy r \<and> cr = Fulfilled (Some i) \<and> currencies i = c # cs \<and> code c \<noteq> []"
  then show "exchange (compose city g wr cr hr fr) = Some \<lparr>base = code c, quote = ''BRL'', rate = r\<rparr>"
    by (simp add: compose_exchange)
qed

theorem aggregator_isolates_branches_witness:
  "field weather (makeTravelInfoRequest (node no_forecast payloads) ''Lisboa'' w0) = Some None \<and>
   field countryInfo (makeTravelInfoRequest (node no_forecast payloads) ''Lisboa'' w0) = Some (Some portugal) \<and>
   field holidays (makeTravelInfoRequest (node no_forecast payloads) ''Lisboa'' w0) = Some (Some holidays_2026) \<and>
   field exchange (makeTravelInfoRequest (node no_forecast payloads) ''Lisboa'' w0)
     = Some (Some \<lparr>base = ''EUR'', quote = ''BRL'', rate = Num (Fin 6)\<rparr>)"
proof -
  let ?e = "node no_forecast payloads"
  from no_forecast_run(2) [of "snd (geocodeCity ?e ''Lisboa'' w0)"]
  obtain er where a: "fst (allSettled ?e lisboa (snd (geocodeCity ?e ''Lisboa'' w0))) =
     (Rejected er, Fulfilled (Some portugal), Fulfilled (Some holidays_2026), Fulfilled (Num (Fin 6)))"
    by blast
  let ?b = "compose ''Lisboa'' lisboa (Rejected er) (Fulfilled (Some portugal))
                 (Fulfilled (Some holidays_2026)) (Fulfilled (Num (Fin 6)))"
  note t = aggregator_isolates_branches [OF no_forecast_run(1) a]
  from t have b: "fst (makeTravelInfoRequest ?e ''Lisboa'' w0) = Inr ?b"
    by (rule conjunct1)
  from t have f: "weather ?b = None" "countryInfo ?b = Some portugal" "holidays ?b = Some holidays_2026"
    by simp_all
  from t have "exchange ?b = Some \<lparr>base = code (hd (currencies portugal)), quote = ''BRL'', rate = Num (Fin 6)\<rparr>"
    by (simp add: portugal_def)
  then have x: "exchange ?b = Some \<lparr>base = ''EUR'', quote = ''BRL'', rate = Num (Fin 6)\<rparr>"
    by (simp add: portugal_def)
  from b f x show ?thesis
    by (simp add: field_def)
qed

text \<open>
  Claim C7. Without a country code \<^verbatim>\<open>getHolidays\<close> returns \<^verbatim>\<open>null\<close> and leaves the world
  as it was (no request). With one, and a reply that is an array of entries with string
  dates, the result holds the year read before the request, as \<^verbatim>\<open>upcoming\<close> the first
  five of the entries whose date is not less than today, and as \<^verbatim>\<open>past\<close> the last five of
  the entries whose date is less than today, in the order of the reply; dates are compared
  as strings, and today is the date read after the request.
\<close>

theorem holidays_first_five_upcoming_last_five_past:
  "(\<not> truthy iso2 \<longrightarrow> getHolidays e iso2 w = (Inr None, w)) \<and>
   (truthy iso2 \<and>
    fetchJSON e (holidays_url e (getFullYear e (clock w)) iso2) (defaults\<lparr>timeoutMs := 12000\<rparr>) w
      = (Inr (Arr hs), w1) \<and>
    (\<forall>h \<in> set hs. \<exists>s. dot h ''date'' = Inr (Str s)) \<and>
    today = take 10 (toISOString e (clock w1)) \<and>
    up = filter (\<lambda>h. \<not> less_str (iso_date h) today) hs \<and>
    pa = filter (\<lambda>h. less_str (iso_date h) today) hs
    \<longrightarrow> getHolidays e iso2 w =
          (Inr (Some \<lparr>year = getFullYear e (clock w), upcoming = take 5 up,
                      past = drop (length pa - 5) pa\<rparr>), w1) \<and>
        length (take 5 up) \<le> 5 \<and> length (drop (length pa - 5) pa) \<le> 5)"
proof (rule conjI)
  show "\<not> truthy iso2 \<longrightarrow> getHolidays e iso2 w = (Inr None, w)"
    by (simp add: getHolidays_no_code)
  show "truthy iso2 \<and>
    fetchJSON e (holidays_url e (getFullYear e (clock w)) iso2) (defaults\<lparr>timeoutMs := 12000\<rparr>) w
      = (Inr (Arr hs), w1) \<and>
    (\<forall>h \<in> set hs. \<exists>s. dot h ''date'' = Inr (Str s)) \<and>
    today = take 10 (toISOString e (clock w1)) \<and>
    up = filter (\<lambda>h. \<not> less_str (iso_date h) today) hs \<and>
    pa = filter (\<lambda>h. less_str (iso_date h) today) hs
    \<longrightarrow> getHolidays e iso2 w =
          (Inr (Some \<lparr>year = getFullYear e (clock w), upcoming = take 5 up,
                      past = drop (length pa - 5) pa\<rparr>), w1) \<and>
        length (take 5 up) \<le> 5 \<and> length (drop (length pa - 5) pa) \<le> 5"
  proof (rule impI)
    assume h: "truthy iso2 \<and>
      fetchJSON e (holidays_url e (getFullYear e (clock w)) iso2) (defaults\<lparr>timeoutMs := 12000\<rparr>) w
        = (Inr (Arr hs), w1) \<and>
      (\<forall>h \<in> set hs. \<exists>s. dot h ''date'' = Inr (Str s)) \<and>
      today = take 10 (toISOString e (clock w1)) \<and>
      up = filter (\<lambda>h. \<not> less_str (iso_date h) today) hs \<and>
      pa = filter (\<lambda>h. less_str (iso_date h) today) hs"
    then have "getHolidays e iso2 w =
          (Inr (Some \<lparr>year = getFullYear e (clock w), upcoming = take 5 up,
                      past = drop (length pa - 5) pa\<rparr>), w1)"
      using getHolidays_dates [of iso2 e w hs w1] by simp
    then show "getHolidays e iso2 w =
          (Inr (Some \<lparr>year = getFullYear e (clock w), upcoming = take 5 up,
                      past = drop (length pa - 5) pa\<rparr>), w1) \<and>
        length (take 5 up) \<le> 5 \<and> length (drop (length pa - 5) pa) \<le> 5"
      by simp
  qed
qed

theorem holidays_first_five_upcoming_last_five_past_witness:
  "getHolidays (node providers payloads) Null w0 = (Inr None, w0) \<and>
   fst (getHolidays (node providers payloads) (Str ''PT'') w0) =
     Inr (Some \<lparr>year = 2026,
                upcoming = [holiday ''2026-12-08'', holiday ''2026-12-25''],
                past = [holiday ''2026-04-03'', holiday ''2026-04-25'', holiday ''2026-05-01'',
                        holiday ''2026-06-10'', holiday ''2026-10-05'']\<rparr>)"
proof -
  let ?e = "node providers payloads"
  let ?opts = "defaults\<lparr>timeoutMs := 12000\<rparr>"
  let ?u = "holidays_url ?e (getFullYear ?e (clock w0)) (Str ''PT'')"
  let ?req = "mk_request ?e (withQuery ?e ?u (params ?opts)) ?opts"
  let ?w1 = "sleep 20 (w0\<lparr>requests := requests w0 @ [?req]\<rparr>)"
  let ?hs = "[holiday ''2026-01-01'', holiday ''2026-04-03'', holiday ''2026-04-25'',
           holiday ''2026-05-01'', holiday ''2026-06-10'', holiday ''2026-10-05'',
           holiday ''2026-12-08'', holiday ''2026-12-25'']"
  have f: "fetchJSON ?e ?u ?opts w0 = (Inr (Arr ?hs), ?w1)"
  proof -
    have "fetchJSON ?e ?u ?opts w0 = (Inr (snd holidays_json), ?w1)"
    proof (rule fetchJSON_first_ok)
      show "net ?e (requests w0) ?req = (20, Response 200 (Inr (fst holidays_json)))"
        by (simp add: node_fields providers_replies mk_request_endpoint holidays_url_PT reply_def)
      show "20 < timeoutMs ?opts"
        by simp
      show "ok 200"
        by (simp add: ok_def)
      show "JSON_parse ?e (fst holidays_json) = Some (snd holidays_json)"
        by (rule parse_payloads)
    qed
    then show ?thesis
      by (simp add: holidays_json_def)
  qed
  have d: "\<forall>h \<in> set ?hs. \<exists>s. dot h ''date'' = Inr (Str s)"
    by (simp add: holiday_def)
  have i: "iso_date (holiday s) = s" for s
    by (simp add: iso_date_def holiday_def opt_dot_def)
  note t = holidays_first_five_upcoming_last_five_past
    [of _ ?e w0 ?hs ?w1 "''2026-11-03''"
      "filter (\<lambda>h. \<not> less_str (iso_date h) ''2026-11-03'') ?hs"
      "filter (\<lambda>h. less_str (iso_date h) ''2026-11-03'') ?hs"]
  have 1: "getHolidays ?e Null w0 = (Inr None, w0)"
    using t [of Null, THEN conjunct1] by simp
  have today: "''2026-11-03'' = take 10 (toISOString ?e (clock ?w1))"
    by (simp add: node_fields)
  have 2: "fst (getHolidays ?e (Str ''PT'') w0) =
     Inr (Some \<lparr>year = 2026,
                upcoming = [holiday ''2026-12-08'', holiday ''2026-12-25''],
                past = [holiday ''2026-04-03'', holiday ''2026-04-25'', holiday ''2026-05-01'',
                        holiday ''2026-06-10'', holiday ''2026-10-05'']\<rparr>)"
    using t [of "Str ''PT''", THEN conjunct2, rule_format, OF conjI [OF _ conjI [OF f conjI [OF d conjI [OF today conjI [OF refl refl]]]]]]
    by (simp add: i node_fields)
  from 1 2 show ?thesis ..
qed

text \<open>
  Claim C8. Once geocoding has given a result, \<^verbatim>\<open>makeTravelInfoRequest\<close> returns the
  composite of the four settled branches. Its \<^verbatim>\<open>exchange\<close> is a record only when the
  fourth branch fulfilled with a truthy rate, which means that its own country lookup
  found a first currency code and \<^verbatim>\<open>getExchangeRate\<close> for that code returned that rate, and
  when a first currency code is there to name the base; the record then is complete
  (base, quote \<^verbatim>\<open>BRL\<close>, rate). When the rate is missing or no currency code is
  available, \<^verbatim>\<open>exchange\<close> is \<^verbatim>\<open>null\<close>.
\<close>

theorem exchange_needs_rate_and_currency:
  assumes "fst (geocodeCity e city w) = Some g"
    and "fst (allSettled e g (snd (geocodeCity e city w))) = (wr, cr, hr, fr)"
  shows "fst (makeTravelInfoRequest e city w) = Inr (compose city g wr cr hr fr) \<and>
         (\<forall>x. exchange (compose city g wr cr hr fr) = Some x \<longrightarrow>
            fr = Fulfilled (rate x) \<and> truthy (rate x) \<and> quote x = ''BRL'' \<and>
            (\<exists>i c cs. cr = Fulfilled (Some i) \<and> currencies i = c # cs \<and> code c \<noteq> [] \<and> base x = code c) \<and>
            (\<exists>i c cs. fst (getCountryInfo e (country_code g) (fx_start e g (snd (geocodeCity e city w))))
                        = Inr (Some i) \<and> currencies i = c # cs \<and> code c \<noteq> [] \<and>
                      fst (getExchangeRate e (Str (code c)) ''BRL''
                            (snd (getCountryInfo e (country_code g) (fx_start e g (snd (geocodeCity e city w))))))
                        = Inr (rate x))) \<and>
         ((\<forall>r. fr = Fulfilled r \<longrightarrow> \<not> truthy r)
            \<or> (\<forall>i c cs. cr = Fulfilled (Some i) \<and> currencies i = c # cs \<longrightarrow> code c = [])
          \<longrightarrow> exchange (compose city g wr cr hr fr) = None)"
proof (intro conjI allI impI)
  show "fst (makeTravelInfoRequest e city w) = Inr (compose city g wr cr hr fr)"
    using assms by (rule makeTravelInfoRequest_compose)
next
  fix x
  assume x: "exchange (compose city g wr cr hr fr) = Some x"
  then obtain i c cs where *: "fr = Fulfilled (rate x)" "truthy (rate x)" "cr = Fulfilled (Some i)"
    "currencies i = c # cs" "code c \<noteq> []" "x = \<lparr>base = code c, quote = ''BRL'', rate = rate x\<rparr>"
    unfolding compose_exchange by blast
  from * show "fr = Fulfilled (rate x)" "truthy (rate x)" by simp_all
  from *(6) have "quote x = ''BRL''" "base x = code c"
    by (metis exchange_rate.select_convs(2), metis exchange_rate.select_convs(1))
  then show "quote x = ''BRL''" by simp
  from * \<open>base x = code c\<close>
  show "\<exists>i c cs. cr = Fulfilled (Some i) \<and> currencies i = c # cs \<and> code c \<noteq> [] \<and> base x = code c"
    by blast
  from allSettled_fx [of e g "snd (geocodeCity e city w)"] assms(2) *(1)
  have "fst (fxBranch e (country_code g) (fx_start e g (snd (geocodeCity e city w)))) = Inr (rate x)"
    by (simp add: settle_def split: sum.splits)
  from fxBranch_rate [OF this *(2)]
  show "\<exists>i c cs. fst (getCountryInfo e (country_code g) (fx_start e g (snd (geocodeCity e city w))))
                        = Inr (Some i) \<and> currencies i = c # cs \<and> code c \<noteq> [] \<and>
                      fst (getExchangeRate e (Str (code c)) ''BRL''
                            (snd (getCountryInfo e (country_code g) (fx_start e g (snd (geocodeCity e city w))))))
                        = Inr (rate x)" .
next
  assume "(\<forall>r. fr = Fulfilled r \<longrightarrow> \<not> truthy r)
            \<or> (\<forall>i c cs. cr = Fulfilled (Some i) \<and> currencies i = c # cs \<longrightarrow> code c = [])"
  then show "exchange (compose city g wr cr hr fr) = None"
    unfolding compose_exchange_None by blast
qed

theorem exchange_needs_rate_and_currency_witness:
  "field exchange (makeTravelInfoRequest (node providers payloads) ''Lisboa'' w0)
     = Some (Some \<lparr>base = ''EUR'', quote = ''BRL'', rate = Num (Fin 6)\<rparr>)"
proof -
  let ?e = "node providers payloads"
  let ?x = "\<lparr>base = ''EUR'', quote = ''BRL'', rate = Num (Fin 6)\<rparr>"
  note t = exchange_needs_rate_and_currency [OF providers_run(1) providers_run(2)]
  have x: "exchange (compose ''Lisboa'' lisboa (Fulfilled forecast) (Fulfilled (Some portugal))
                 (Fulfilled (Some holidays_2026)) (Fulfilled (Num (Fin 6)))) = Some ?x"
    by (simp add: compose_exchange portugal_def)
  from t [THEN conjunct1] x show ?thesis
    by (simp add: field_def)
qed

text \<open>
  Claim C10. The \<^verbatim>\<open>exchange\<close> field depends on the second branch too: when it is a
  record, the country branch has fulfilled with a non-empty list of currencies and the
  base is the code of the first of them; when the country branch rejects, or fulfils with
  \<^verbatim>\<open>null\<close> or without currencies, \<^verbatim>\<open>exchange\<close> is \<^verbatim>\<open>null\<close> whatever the fourth branch
  returned. A rate that is exactly 0 makes \<^verbatim>\<open>getExchangeRate\<close> return \<^verbatim>\<open>null\<close>, and a
  fourth branch that fulfils with \<^verbatim>\<open>null\<close> gives \<^verbatim>\<open>exchange = null\<close>.
\<close>

theorem exchange_coupled_to_country_branch:
  assumes "fst (geocodeCity e city w) = Some g"
    and "fst (allSettled e g (snd (geocodeCity e city w))) = (wr, cr, hr, fr)"
  shows "fst (makeTravelInfoRequest e city w) = Inr (compose city g wr cr hr fr) \<and>
         (\<forall>x. exchange (compose city g wr cr hr fr) = Some x \<longrightarrow>
            (\<exists>i c cs. cr = Fulfilled (Some i) \<and> currencies i = c # cs \<and> code c \<noteq> [] \<and> base x = code c)) \<and>
         ((\<exists>er. cr = Rejected er) \<or> cr = Fulfilled None \<or> (\<exists>i. cr = Fulfilled (Some i) \<and> currencies i = [])
            \<longrightarrow> exchange (compose city g wr cr hr fr) = None) \<and>
         (fr = Fulfilled Null \<longrightarrow> exchange (compose city g wr cr hr fr) = None) \<and>
         (\<forall>bc q v d v'. truthy bc \<and> fetchJSON e exchangerate_latest (exchangerate_opts bc q) v = (Inr d, v')
              \<and> opt_dot (opt_dot d ''rates'') q = Num (Fin 0)
            \<longrightarrow> getExchangeRate e bc q v = (Inr Null, v'))"
proof (intro conjI allI impI)
  show "fst (makeTravelInfoRequest e city w) = Inr (compose city g wr cr hr fr)"
    using assms by (rule makeTravelInfoRequest_compose)
next
  fix x
  assume "exchange (compose city g wr cr hr fr) = Some x"
  then obtain i c cs where *: "cr = Fulfilled (Some i)" "currencies i = c # cs" "code c \<noteq> []"
      "x = \<lparr>base = code c, quote = ''BRL'', rate = rate x\<rparr>"
    unfolding compose_exchange by blast
  from *(4) have "base x = code c"
    by (metis exchange_rate.select_convs(1))
  with * show "\<exists>i c cs. cr = Fulfilled (Some i) \<and> currencies i = c # cs \<and> code c \<noteq> [] \<and> base x = code c"
    by blast
next
  assume "(\<exists>er. cr = Rejected er) \<or> cr = Fulfilled None \<or> (\<exists>i. cr = Fulfilled (Some i) \<and> currencies i = [])"
  then show "exchange (compose city g wr cr hr fr) = None"
    unfolding compose_exchange_None by auto
next
  assume "fr = Fulfilled Null"
  then show "exchange (compose city g wr cr hr fr) = None"
    unfolding compose_exchange_None by auto
next
  fix bc q v d v'
  assume "truthy bc \<and> fetchJSON e exchangerate_latest (exchangerate_opts bc q) v = (Inr d, v')
              \<and> opt_dot (opt_dot d ''rates'') q = Num (Fin 0)"
  then show "getExchangeRate e bc q v = (Inr Null, v')"
    using getExchangeRate_zero [of bc e q v d v'] by simp
qed

theorem exchange_coupled_to_country_branch_witness:
  "snd (snd (snd (fst (allSettled (node flaky payloads) lisboa
      (snd (geocodeCity (node flaky payloads) ''Lisboa'' w0)))))) = Fulfilled (Num (Fin 6)) \<and>
   field countryInfo (makeTravelInfoRequest (node flaky payloads) ''Lisboa'' w0) = Some None \<and>
   field exchange (makeTravelInfoRequest (node flaky payloads) ''Lisboa'' w0) = Some None"
proof -
  let ?e = "node flaky payloads"
  let ?er = "Error ''HTTP 503 em https://restcountries.com/v3.1/alpha/PT''"
  let ?b = "compose ''Lisboa'' lisboa (Fulfilled forecast) (Rejected ?er)
                 (Fulfilled (Some holidays_2026)) (Fulfilled (Num (Fin 6)))"
  note t = exchange_coupled_to_country_branch [OF flaky_run(1) flaky_run(2)]
  from t have b: "fst (makeTravelInfoRequest ?e ''Lisboa'' w0) = Inr ?b"
    by (rule conjunct1)
  from t have "(\<exists>er. Rejected ?er = (Rejected er :: country_info option settled)) \<longrightarrow> exchange ?b = None"
    by blast
  then have x: "exchange ?b = None"
    by blast
  have c: "countryInfo ?b = None"
    by (simp add: compose_countryInfo)
  from b x c flaky_run(2) show ?thesis
    by (simp add: field_def)
qed

end
